theory Spec2Isabelle
  imports Complex_Main "HOL-Library.Word"
begin

chapter \<open>The GLB parser and scene builder of ARScanner\<close>

text \<open>
  A shallow embedding of the binary 3D-asset core that is duplicated in
  \<^verbatim>\<open>frontend/src/screens/ModelViewerScreen.js\<close> and
  \<^verbatim>\<open>frontend/src/screens/ARViewScreen.js\<close>: \<^verbatim>\<open>parseGLB\<close>, \<^verbatim>\<open>readAccessor\<close>,
  \<^verbatim>\<open>buildPrimitive\<close>, \<^verbatim>\<open>buildMaterial\<close>, \<^verbatim>\<open>processNode\<close>, \<^verbatim>\<open>buildSceneFromGLTF\<close>,
  \<^verbatim>\<open>normalizeModel\<close> and the synchronous part of \<^verbatim>\<open>loadModel\<close>.

  Conventions of the embedding.
  \<^item> A JavaScript exception is a value \<open>Inl e\<close> of the sum type \<open>error + 'a\<close>; the
    exceptions raised by the runtime itself (\<open>RangeError\<close>, \<open>TypeError\<close>,
    \<open>SyntaxError\<close>) are constructors beside the \<^verbatim>\<open>new Error(...)\<close> of the source.
  \<^item> An \<^verbatim>\<open>ArrayBuffer\<close> is a list of bytes; a \<^verbatim>\<open>Uint8Array\<close> view on it is a record of
    the buffer, the view's \<^verbatim>\<open>byteOffset\<close> and its \<^verbatim>\<open>byteLength\<close>.
  \<^item> Offsets, lengths and counts are natural numbers: the source computes them in
    double precision, which is exact far beyond the 32-bit values a container holds.
  \<^item> \<^verbatim>\<open>undefined\<close> and \<^verbatim>\<open>null\<close> are \<open>None\<close>.
  \<^item> \<^verbatim>\<open>console.warn\<close> output is returned as a list of warnings where a property
    speaks about it.
  \<^item> Typed arrays and \<^verbatim>\<open>DataView\<close> are read little-endian (the byte order of every
    platform the application runs on; the \<^verbatim>\<open>DataView\<close> reads pass \<^verbatim>\<open>true\<close>).
\<close>

section \<open>Bytes, buffers and views\<close>

type_synonym byte = "8 word"

text \<open>The values \<^verbatim>\<open>JSON.parse\<close> can return, with JavaScript's truthiness (\<^verbatim>\<open>!jsonChunk\<close>).\<close>

datatype json =
  JNull | JBool bool | JNum real | JStr string | JArr "json list" | JObj "(string \<times> json) list"

fun truthy :: "json \<Rightarrow> bool" where
  "truthy JNull = False"
| "truthy (JBool b) = b"
| "truthy (JNum x) = (x \<noteq> 0)"
| "truthy (JStr s) = (s \<noteq> [])"
| "truthy (JArr xs) = True"
| "truthy (JObj kvs) = True"

text \<open>
  The exceptions. \<open>BadMagic\<close> is \<^verbatim>\<open>'Invalid GLB file: bad magic number'\<close>,
  \<open>UnsupportedVersion\<close> is \<^verbatim>\<open>'Unsupported GLB version'\<close>, \<open>NoJsonChunk\<close> is
  \<^verbatim>\<open>'GLB file has no JSON chunk'\<close>, \<open>UnsupportedComponentType\<close> and
  \<open>UnsupportedAccessorType\<close> are the two errors of \<^verbatim>\<open>readAccessor\<close>, \<open>NoBinaryChunk\<close> is
  \<^verbatim>\<open>'GLB has no binary data chunk'\<close>, \<open>NoMeshes\<close> is \<^verbatim>\<open>'GLB contains no meshes'\<close> and
  \<open>NoRenderableMeshes\<close> is \<^verbatim>\<open>'GLB parsing produced no renderable meshes'\<close>.
\<close>

datatype error =
    RangeError | TypeError | SyntaxError
  | BadMagic nat | UnsupportedVersion nat | NoJsonChunk
  | UnsupportedComponentType nat | UnsupportedAccessorType string
  | NoBinaryChunk | NoMeshes | NoRenderableMeshes

record uint8array =
  u8_buffer :: "byte list"
  u8_byteOffset :: nat
  u8_byteLength :: nat

text \<open>The bytes a view shows.\<close>

definition bytes_of :: "uint8array \<Rightarrow> byte list" where
  "bytes_of v = take (u8_byteLength v) (drop (u8_byteOffset v) (u8_buffer v))"

text \<open>A little-endian unsigned number.\<close>

fun le_nat :: "byte list \<Rightarrow> nat" where
  "le_nat [] = 0"
| "le_nat (b # bs) = unat b + 256 * le_nat bs"

text \<open>\<^verbatim>\<open>dataView.getUint32(off, true)\<close> on a view of the whole buffer: a read that does not
  fit raises \<open>RangeError\<close>.\<close>

definition getUint32 :: "byte list \<Rightarrow> nat \<Rightarrow> error + nat" where
  "getUint32 buf off =
     (if off + 4 > length buf then Inl RangeError
      else Inr (le_nat (take 4 (drop off buf))))"

text \<open>\<^verbatim>\<open>new Uint8Array(arrayBuffer, off, len)\<close>: a view that does not fit raises
  \<open>RangeError\<close>.\<close>

definition new_Uint8Array :: "byte list \<Rightarrow> nat \<Rightarrow> nat \<Rightarrow> error + uint8array" where
  "new_Uint8Array buf off len =
     (if off > length buf \<or> off + len > length buf then Inl RangeError
      else Inr \<lparr>u8_buffer = buf, u8_byteOffset = off, u8_byteLength = len\<rparr>)"

text \<open>The loop \<^verbatim>\<open>jsonString += String.fromCharCode(jsonBytes[i])\<close>: one character per
  byte.\<close>

definition fromCharCodes :: "byte list \<Rightarrow> string" where
  "fromCharCodes bs = map (\<lambda>b. char_of (unat b)) bs"

section \<open>The container parser: parseGLB\<close>

definition GLB_MAGIC :: nat where "GLB_MAGIC = 0x46546C67"
definition CHUNK_TYPE_JSON :: nat where "CHUNK_TYPE_JSON = 0x4E4F534A"
definition CHUNK_TYPE_BIN :: nat where "CHUNK_TYPE_BIN = 0x004E4942"

text \<open>
  The \<^verbatim>\<open>while (offset < totalLength)\<close> loop of \<^verbatim>\<open>parseGLB\<close> with the two checks after
  it. \<^verbatim>\<open>JSON.parse\<close> is a builtin of the runtime and a parameter here: \<open>None\<close> is its
  \<open>SyntaxError\<close>. The loop terminates because every round adds at least 8 to
  \<open>offset\<close>.
\<close>

function read_chunks ::
  "(string \<Rightarrow> json option) \<Rightarrow> byte list \<Rightarrow> nat \<Rightarrow> nat \<Rightarrow> json \<Rightarrow> uint8array option
     \<Rightarrow> error + (json \<times> uint8array option)" where
  "read_chunks JSON_parse buf totalLength offset jsonChunk binaryChunk =
     (if offset < totalLength then
        (case getUint32 buf offset of Inl e \<Rightarrow> Inl e | Inr chunkLength \<Rightarrow>
         (case getUint32 buf (offset + 4) of Inl e \<Rightarrow> Inl e | Inr chunkType \<Rightarrow>
           (if chunkType = CHUNK_TYPE_JSON then
              (case new_Uint8Array buf (offset + 8) chunkLength of Inl e \<Rightarrow> Inl e
               | Inr jsonBytes \<Rightarrow>
                 (case JSON_parse (fromCharCodes (bytes_of jsonBytes)) of
                    None \<Rightarrow> Inl SyntaxError
                  | Some j \<Rightarrow>
                      read_chunks JSON_parse buf totalLength (offset + (8 + chunkLength))
                        j binaryChunk))
            else if chunkType = CHUNK_TYPE_BIN then
              (case new_Uint8Array buf (offset + 8) chunkLength of Inl e \<Rightarrow> Inl e
               | Inr b \<Rightarrow>
                   read_chunks JSON_parse buf totalLength (offset + (8 + chunkLength))
                     jsonChunk (Some b))
            else read_chunks JSON_parse buf totalLength (offset + (8 + chunkLength))
                   jsonChunk binaryChunk)))
      else if \<not> truthy jsonChunk then Inl NoJsonChunk
      else Inr (jsonChunk, binaryChunk))"
  by pat_completeness auto
termination
  by (relation "measure (\<lambda>(P, buf, totalLength, offset, j, b). totalLength - offset)") auto

declare read_chunks.simps [simp del]

definition parseGLB ::
  "(string \<Rightarrow> json option) \<Rightarrow> byte list \<Rightarrow> error + (json \<times> uint8array option)" where
  "parseGLB JSON_parse arrayBuffer =
     (case getUint32 arrayBuffer 0 of Inl e \<Rightarrow> Inl e | Inr magic \<Rightarrow>
        if magic \<noteq> GLB_MAGIC then Inl (BadMagic magic)
        else (case getUint32 arrayBuffer 4 of Inl e \<Rightarrow> Inl e | Inr version \<Rightarrow>
          if version \<noteq> 2 then Inl (UnsupportedVersion version)
          else (case getUint32 arrayBuffer 8 of Inl e \<Rightarrow> Inl e | Inr totalLength \<Rightarrow>
            read_chunks JSON_parse arrayBuffer totalLength 12 JNull None)))"

subsection \<open>Containers for stating properties of the parser\<close>

text \<open>
  The definitions of this subsection are not part of the source: they describe inputs.
  \<open>visited_chunks\<close> lists the chunk headers (offset, declared length, type tag) that the
  loop decodes as long as nothing stops it; \<open>container\<close> writes a list of chunks (type
  tag, payload) as a GLB file with a correct header; \<open>of_type\<close> selects the payloads of
  one type, in file order.
\<close>

function visited_chunks :: "byte list \<Rightarrow> nat \<Rightarrow> nat \<Rightarrow> (nat \<times> nat \<times> nat) list" where
  "visited_chunks buf totalLength offset =
     (if offset < totalLength then
        (case getUint32 buf offset of Inl e \<Rightarrow> [] | Inr chunkLength \<Rightarrow>
         (case getUint32 buf (offset + 4) of Inl e \<Rightarrow> [] | Inr chunkType \<Rightarrow>
            (offset, chunkLength, chunkType) #
              visited_chunks buf totalLength (offset + (8 + chunkLength))))
      else [])"
  by pat_completeness auto
termination
  by (relation "measure (\<lambda>(buf, totalLength, offset). totalLength - offset)") auto

declare visited_chunks.simps [simp del]

definition le32 :: "nat \<Rightarrow> byte list" where
  "le32 n = [of_nat n, of_nat (n div 256), of_nat (n div 65536), of_nat (n div 16777216)]"

definition chunk_bytes :: "nat \<times> byte list \<Rightarrow> byte list" where
  "chunk_bytes c = le32 (length (snd c)) @ le32 (fst c) @ snd c"

definition container :: "(nat \<times> byte list) list \<Rightarrow> byte list" where
  "container cs =
     le32 GLB_MAGIC @ le32 2 @ le32 (12 + length (concat (map chunk_bytes cs))) @
     concat (map chunk_bytes cs)"

definition of_type :: "nat \<Rightarrow> (nat \<times> byte list) list \<Rightarrow> byte list list" where
  "of_type ty cs = map snd (filter (\<lambda>c. fst c = ty) cs)"

section \<open>The document\<close>

text \<open>
  The parsed document is used through its properties; the records hold the properties the
  source reads, \<open>None\<close> where a property is absent. Numbers that the source uses as
  indices, counts and offsets are natural numbers.
\<close>

record accessor =
  a_bufferView :: "nat option"
  a_componentType :: nat
  a_type :: string
  a_count :: nat
  a_byteOffset :: "nat option"

record buffer_view =
  bv_byteOffset :: "nat option"
  bv_byteStride :: "nat option"

record primitive =
  POSITION :: "nat option"
  NORMAL :: "nat option"
  TEXCOORD_0 :: "nat option"
  COLOR_0 :: "nat option"
  p_indices :: "nat option"
  p_material :: "nat option"

record mesh =
  m_primitives :: "primitive list"

record pbr =
  baseColorFactor :: "real list option"
  metallicFactor :: "real option"
  roughnessFactor :: "real option"

record material =
  pbrMetallicRoughness :: "pbr option"
  emissiveFactor :: "real list option"
  alphaMode :: "string option"
  alphaCutoff :: "real option"
  doubleSided :: "bool option"

record node =
  n_mesh :: "nat option"
  n_matrix :: "real list option"
  n_translation :: "real list option"
  n_rotation :: "real list option"
  n_scale :: "real list option"
  n_children :: "nat list option"

record scene_def =
  s_nodes :: "nat list option"

record gltf =
  accessors :: "accessor list option"
  bufferViews :: "buffer_view list option"
  meshes :: "mesh list option"
  materials :: "material list option"
  nodes :: "node list option"
  scenes :: "scene_def list option"
  scene :: "nat option"

text \<open>\<^verbatim>\<open>xs[i]\<close> is \<^verbatim>\<open>undefined\<close> outside the array; \<^verbatim>\<open>x || 0\<close> on an optional number.\<close>

definition js_nth :: "'a list \<Rightarrow> nat \<Rightarrow> 'a option" where
  "js_nth xs i = (if i < length xs then Some (xs ! i) else None)"

fun or0 :: "nat option \<Rightarrow> nat" where
  "or0 None = 0"
| "or0 (Some n) = n"

section \<open>Typed arrays\<close>

datatype array_type =
  Int8Array | Uint8Array | Int16Array | Uint16Array | Uint32Array | Float32Array

fun BYTES_PER_ELEMENT :: "array_type \<Rightarrow> nat" where
  "BYTES_PER_ELEMENT Int8Array = 1"
| "BYTES_PER_ELEMENT Uint8Array = 1"
| "BYTES_PER_ELEMENT Int16Array = 2"
| "BYTES_PER_ELEMENT Uint16Array = 2"
| "BYTES_PER_ELEMENT Uint32Array = 4"
| "BYTES_PER_ELEMENT Float32Array = 4"

text \<open>
  An element of a typed array is the number the program sees: the signed or unsigned
  integer of an integer array. A 32-bit float is kept as its bit pattern (the unsigned
  value of its four bytes), so that no floating-point arithmetic enters the model of
  \<^verbatim>\<open>readAccessor\<close>: copying and reinterpreting bytes preserves the pattern.
\<close>

definition signed :: "nat \<Rightarrow> nat \<Rightarrow> int" where
  "signed bits n = (if n < 2 ^ (bits - 1) then int n else int n - 2 ^ bits)"

fun element_of :: "array_type \<Rightarrow> byte list \<Rightarrow> int" where
  "element_of Int8Array bs = signed 8 (le_nat bs)"
| "element_of Uint8Array bs = int (le_nat bs)"
| "element_of Int16Array bs = signed 16 (le_nat bs)"
| "element_of Uint16Array bs = int (le_nat bs)"
| "element_of Uint32Array bs = int (le_nat bs)"
| "element_of Float32Array bs = int (le_nat bs)"

datatype typed_array = TypedArray (array_kind: array_type) (elems: "int list")

text \<open>
  \<^verbatim>\<open>new T(buffer, byteOffset, length)\<close>, a view on \<open>buf\<close>: the constructor raises
  \<open>RangeError\<close> when the offset is not a multiple of the element size and when the view
  does not fit in the buffer.
\<close>

definition new_TypedArray :: "array_type \<Rightarrow> byte list \<Rightarrow> nat \<Rightarrow> nat \<Rightarrow> error + typed_array" where
  "new_TypedArray T buf off len =
     (let csize = BYTES_PER_ELEMENT T in
      if off mod csize \<noteq> 0 then Inl RangeError
      else if off + len * csize > length buf then Inl RangeError
      else Inr (TypedArray T
             (map (\<lambda>k. element_of T (take csize (drop (off + k * csize) buf))) [0..<len])))"

text \<open>\<^verbatim>\<open>binaryData.slice(start, end)\<close> and then \<^verbatim>\<open>.buffer\<close>: the fresh buffer of the copy.
  The bounds are clamped to the view.\<close>

definition u8_slice :: "uint8array \<Rightarrow> nat \<Rightarrow> nat \<Rightarrow> byte list" where
  "u8_slice v start stop =
     (let len = u8_byteLength v; k = min start len; final = min stop len
      in take (final - k) (drop k (bytes_of v)))"

text \<open>\<^verbatim>\<open>new DataView(buffer, byteOffset)\<close> and \<^verbatim>\<open>new DataView(buffer, byteOffset,
  byteLength)\<close>: the bytes the view shows.\<close>

definition new_DataView :: "byte list \<Rightarrow> nat \<Rightarrow> nat option \<Rightarrow> error + byte list" where
  "new_DataView buf off len =
     (if off > length buf then Inl RangeError
      else (case len of
              None \<Rightarrow> Inr (drop off buf)
            | Some n \<Rightarrow> if off + n > length buf then Inl RangeError
                       else Inr (take n (drop off buf))))"

text \<open>A read of a \<^verbatim>\<open>DataView\<close> (\<^verbatim>\<open>getInt8\<close>, \<^verbatim>\<open>getUint8\<close>, and with \<^verbatim>\<open>true\<close> for little
  endian \<^verbatim>\<open>getInt16\<close>, \<^verbatim>\<open>getUint16\<close>, \<^verbatim>\<open>getUint32\<close>, \<^verbatim>\<open>getFloat32\<close>): a read that does not
  fit raises \<open>RangeError\<close>.\<close>

definition dv_get :: "array_type \<Rightarrow> byte list \<Rightarrow> nat \<Rightarrow> error + int" where
  "dv_get T dataView off =
     (if off + BYTES_PER_ELEMENT T > length dataView then Inl RangeError
      else Inr (element_of T (take (BYTES_PER_ELEMENT T) (drop off dataView))))"

section \<open>Accessor resolution: readAccessor\<close>

text \<open>
  The tables \<^verbatim>\<open>COMPONENT_TYPES\<close> and \<^verbatim>\<open>TYPE_SIZES\<close>. (A lookup in the source's object
  literal would also find the keys every object inherits, such as \<^verbatim>\<open>"constructor"\<close>; the
  model takes accessor types from the seven own keys or finds nothing.)
\<close>

definition COMPONENT_TYPES :: "nat \<Rightarrow> (array_type \<times> nat) option" where
  "COMPONENT_TYPES componentType =
     (if componentType = 5120 then Some (Int8Array, 1)
      else if componentType = 5121 then Some (Uint8Array, 1)
      else if componentType = 5122 then Some (Int16Array, 2)
      else if componentType = 5123 then Some (Uint16Array, 2)
      else if componentType = 5125 then Some (Uint32Array, 4)
      else if componentType = 5126 then Some (Float32Array, 4)
      else None)"

definition TYPE_SIZES :: "string \<Rightarrow> nat option" where
  "TYPE_SIZES t =
     (if t = ''SCALAR'' then Some 1
      else if t = ''VEC2'' then Some 2
      else if t = ''VEC3'' then Some 3
      else if t = ''VEC4'' then Some 4
      else if t = ''MAT2'' then Some 4
      else if t = ''MAT3'' then Some 9
      else if t = ''MAT4'' then Some 16
      else None)"

text \<open>
  The first lines of \<^verbatim>\<open>readAccessor\<close>, the same text in both files (ModelViewerScreen.js
  57-73, ARViewScreen.js 56-72): the accessor and its buffer view are looked up, the two
  tables are consulted, and the byte offset and stride are computed. A property read on
  \<^verbatim>\<open>undefined\<close> is a \<open>TypeError\<close>, raised where the source reads the property: a missing
  accessor at \<^verbatim>\<open>accessor.bufferView\<close>, a missing buffer view only at
  \<^verbatim>\<open>bufferView.byteOffset\<close>, after the two table checks. The result is the accessor, its
  \<^verbatim>\<open>componentInfo\<close> (array constructor and size), \<^verbatim>\<open>numComponents\<close>, \<^verbatim>\<open>byteOffset\<close> and
  \<^verbatim>\<open>byteStride\<close>.
\<close>

definition accessor_info ::
  "gltf \<Rightarrow> nat \<Rightarrow> error + (accessor \<times> (array_type \<times> nat) \<times> nat \<times> nat \<times> nat)" where
  "accessor_info gltf accessorIndex =
     (case accessors gltf of None \<Rightarrow> Inl TypeError | Some accs \<Rightarrow>
      (case js_nth accs accessorIndex of None \<Rightarrow> Inl TypeError | Some accessor \<Rightarrow>
       (case bufferViews gltf of None \<Rightarrow> Inl TypeError | Some bvs \<Rightarrow>
        (let bufferView = (case a_bufferView accessor of None \<Rightarrow> None | Some b \<Rightarrow> js_nth bvs b)
         in case COMPONENT_TYPES (a_componentType accessor) of
              None \<Rightarrow> Inl (UnsupportedComponentType (a_componentType accessor))
            | Some componentInfo \<Rightarrow>
               (case TYPE_SIZES (a_type accessor) of
                  None \<Rightarrow> Inl (UnsupportedAccessorType (a_type accessor))
                | Some numComponents \<Rightarrow>
                   (case bufferView of None \<Rightarrow> Inl TypeError | Some bv \<Rightarrow>
                      Inr (accessor, componentInfo, numComponents,
                           or0 (bv_byteOffset bv) + or0 (a_byteOffset accessor),
                           or0 (bv_byteStride bv))))))))"

text \<open>
  The \<^verbatim>\<open>switch (accessor.componentType)\<close> of the interleaved path: the \<^verbatim>\<open>DataView\<close> read
  of each case, \<open>None\<close> when no case matches (nothing is stored). In every case the read
  has the element type of the result array, so the value is stored unchanged.
\<close>

definition read_component :: "nat \<Rightarrow> byte list \<Rightarrow> nat \<Rightarrow> (error + int) option" where
  "read_component componentType dataView compOffset =
     (if componentType = 5126 then Some (dv_get Float32Array dataView compOffset)
      else if componentType = 5123 then Some (dv_get Uint16Array dataView compOffset)
      else if componentType = 5125 then Some (dv_get Uint32Array dataView compOffset)
      else if componentType = 5121 then Some (dv_get Uint8Array dataView compOffset)
      else if componentType = 5122 then Some (dv_get Int16Array dataView compOffset)
      else if componentType = 5120 then Some (dv_get Int8Array dataView compOffset)
      else None)"

subsection \<open>ModelViewerScreen.js\<close>

text \<open>The inner loop over \<open>j\<close> and the outer loop over \<open>i\<close> of the interleaved path; a
  read outside the \<^verbatim>\<open>DataView\<close> raises.\<close>

fun MV_components ::
  "nat \<Rightarrow> byte list \<Rightarrow> nat \<Rightarrow> nat \<Rightarrow> nat \<Rightarrow> nat \<Rightarrow> nat list \<Rightarrow> int list \<Rightarrow> error + int list" where
  "MV_components componentType dataView csize numComponents elementOffset i [] result =
     Inr result"
| "MV_components componentType dataView csize numComponents elementOffset i (j # js) result =
     (let compOffset = elementOffset + j * csize in
      case read_component componentType dataView compOffset of
        None \<Rightarrow>
          MV_components componentType dataView csize numComponents elementOffset i js result
      | Some (Inl e) \<Rightarrow> Inl e
      | Some (Inr x) \<Rightarrow>
          MV_components componentType dataView csize numComponents elementOffset i js
            (result[i * numComponents + j := x]))"

fun MV_elements ::
  "nat \<Rightarrow> byte list \<Rightarrow> nat \<Rightarrow> nat \<Rightarrow> nat \<Rightarrow> nat \<Rightarrow> nat list \<Rightarrow> int list \<Rightarrow> error + int list" where
  "MV_elements componentType dataView csize numComponents byteOffset byteStride [] result =
     Inr result"
| "MV_elements componentType dataView csize numComponents byteOffset byteStride (i # rest) result =
     (let elementOffset = byteOffset + i * byteStride in
      case MV_components componentType dataView csize numComponents elementOffset i
             [0..<numComponents] result of
        Inl e \<Rightarrow> Inl e
      | Inr result' \<Rightarrow>
          MV_elements componentType dataView csize numComponents byteOffset byteStride rest result')"

text \<open>The fast path creates a typed-array view directly on \<^verbatim>\<open>binaryData.buffer\<close> at
  \<^verbatim>\<open>binaryData.byteOffset + byteOffset\<close>.\<close>

definition MV_readAccessor :: "gltf \<Rightarrow> uint8array \<Rightarrow> nat \<Rightarrow> error + typed_array" where
  "MV_readAccessor gltf binaryData accessorIndex =
     (case accessor_info gltf accessorIndex of
        Inl e \<Rightarrow> Inl e
      | Inr (accessor, (array, csize), numComponents, byteOffset, byteStride) \<Rightarrow>
          (let count = a_count accessor;
               tightStride = csize * numComponents
           in if byteStride = 0 \<or> byteStride = tightStride then
                (let totalElements = count * numComponents
                 in new_TypedArray array (u8_buffer binaryData)
                      (u8_byteOffset binaryData + byteOffset) totalElements)
              else
                (let result = replicate (count * numComponents) 0
                 in case new_DataView (u8_buffer binaryData) (u8_byteOffset binaryData) None of
                      Inl e \<Rightarrow> Inl e
                    | Inr dataView \<Rightarrow>
                       (case MV_elements (a_componentType accessor) dataView csize numComponents
                               byteOffset byteStride [0..<count] result of
                          Inl e \<Rightarrow> Inl e
                        | Inr result' \<Rightarrow> Inr (TypedArray array result')))))"

subsection \<open>ARViewScreen.js\<close>

text \<open>The two \<^verbatim>\<open>console.warn\<close> of \<^verbatim>\<open>readAccessor\<close> (accessor index, offset, need, have;
  element, component) and the one of \<^verbatim>\<open>buildPrimitive\<close>.\<close>

datatype warning =
    Overflow nat nat nat nat
  | InterleavedOutOfBounds nat nat
  | NoPositionAttribute

text \<open>The loops of the interleaved path: a component that does not fit in the binary
  chunk is reported and ends the inner loop (\<^verbatim>\<open>break\<close>); the outer loop goes on.\<close>

fun AR_components ::
  "nat \<Rightarrow> byte list \<Rightarrow> nat \<Rightarrow> nat \<Rightarrow> nat \<Rightarrow> nat \<Rightarrow> nat \<Rightarrow> nat list \<Rightarrow> warning list \<times> int list
     \<Rightarrow> warning list \<times> (error + int list)" where
  "AR_components componentType dataView byteLength csize numComponents elementOffset i []
     (warns, result) = (warns, Inr result)"
| "AR_components componentType dataView byteLength csize numComponents elementOffset i (j # js)
     (warns, result) =
     (let compOffset = elementOffset + j * csize in
      if compOffset + csize > byteLength then
        (warns @ [InterleavedOutOfBounds i j], Inr result)
      else
        (case read_component componentType dataView compOffset of
           None \<Rightarrow>
             AR_components componentType dataView byteLength csize numComponents elementOffset i
               js (warns, result)
         | Some (Inl e) \<Rightarrow> (warns, Inl e)
         | Some (Inr x) \<Rightarrow>
             AR_components componentType dataView byteLength csize numComponents elementOffset i
               js (warns, result[i * numComponents + j := x])))"

fun AR_elements ::
  "nat \<Rightarrow> byte list \<Rightarrow> nat \<Rightarrow> nat \<Rightarrow> nat \<Rightarrow> nat \<Rightarrow> nat \<Rightarrow> nat list \<Rightarrow> warning list \<times> int list
     \<Rightarrow> warning list \<times> (error + int list)" where
  "AR_elements componentType dataView byteLength csize numComponents byteOffset byteStride []
     (warns, result) = (warns, Inr result)"
| "AR_elements componentType dataView byteLength csize numComponents byteOffset byteStride
     (i # rest) (warns, result) =
     (let elementOffset = byteOffset + i * byteStride in
      case AR_components componentType dataView byteLength csize numComponents elementOffset i
             [0..<numComponents] (warns, result) of
        (warns', Inl e) \<Rightarrow> (warns', Inl e)
      | (warns', Inr result') \<Rightarrow>
          AR_elements componentType dataView byteLength csize numComponents byteOffset byteStride
            rest (warns', result'))"

text \<open>The result is the console output and the value or exception.\<close>

definition AR_readAccessor ::
  "gltf \<Rightarrow> uint8array \<Rightarrow> nat \<Rightarrow> warning list \<times> (error + typed_array)" where
  "AR_readAccessor gltf binaryData accessorIndex =
     (case accessor_info gltf accessorIndex of
        Inl e \<Rightarrow> ([], Inl e)
      | Inr (accessor, (array, csize), numComponents, byteOffset, byteStride) \<Rightarrow>
          (let count = a_count accessor;
               tightStride = csize * numComponents;
               totalElements = count * numComponents;
               totalBytes = totalElements * csize;
               warns = (if byteOffset + totalBytes > u8_byteLength binaryData
                      then [Overflow accessorIndex byteOffset totalBytes
                              (u8_byteLength binaryData)]
                      else [])
           in if byteStride = 0 \<or> byteStride = tightStride then
                (let srcStart = byteOffset;
                     srcEnd = min (srcStart + totalBytes) (u8_byteLength binaryData);
                     slice = u8_slice binaryData srcStart srcEnd
                 in (warns, new_TypedArray array slice 0 totalElements))
              else
                (let result = replicate totalElements 0
                 in case new_DataView (u8_buffer binaryData) (u8_byteOffset binaryData)
                           (Some (u8_byteLength binaryData)) of
                      Inl e \<Rightarrow> (warns, Inl e)
                    | Inr dataView \<Rightarrow>
                       (case AR_elements (a_componentType accessor) dataView
                               (u8_byteLength binaryData) csize numComponents byteOffset
                               byteStride [0..<count] (warns, result) of
                          (warns', Inl e) \<Rightarrow> (warns', Inl e)
                        | (warns', Inr result') \<Rightarrow> (warns', Inr (TypedArray array result'))))))"

subsection \<open>Either screen\<close>

datatype screen = ModelViewerScreen | ARViewScreen

definition readAccessor :: "screen \<Rightarrow> gltf \<Rightarrow> uint8array \<Rightarrow> nat \<Rightarrow> error + typed_array" where
  "readAccessor scr gltf binaryData accessorIndex =
     (case scr of
        ModelViewerScreen \<Rightarrow> MV_readAccessor gltf binaryData accessorIndex
      | ARViewScreen \<Rightarrow> snd (AR_readAccessor gltf binaryData accessorIndex))"

text \<open>A \<^verbatim>\<open>Uint8Array\<close> lies within its buffer: the constructor guarantees it for every
  view \<^verbatim>\<open>parseGLB\<close> returns.\<close>

definition view_ok :: "uint8array \<Rightarrow> bool" where
  "view_ok v = (u8_byteOffset v + u8_byteLength v \<le> length (u8_buffer v))"

subsection \<open>Inputs for stating properties of readAccessor\<close>

text \<open>Not part of the source: a document with one accessor of the given component type,
  type, count and byte offset on one buffer view with the given stride, and the view of a
  whole buffer.\<close>

definition one_accessor :: "nat \<Rightarrow> string \<Rightarrow> nat \<Rightarrow> nat option \<Rightarrow> nat option \<Rightarrow> gltf" where
  "one_accessor ct ty cnt off stride =
     \<lparr>accessors = Some [\<lparr>a_bufferView = Some 0, a_componentType = ct, a_type = ty,
                           a_count = cnt, a_byteOffset = off\<rparr>],
      bufferViews = Some [\<lparr>bv_byteOffset = None, bv_byteStride = stride\<rparr>],
      meshes = None, materials = None, nodes = None, scenes = None, scene = None\<rparr>"

definition whole :: "byte list \<Rightarrow> uint8array" where
  "whole buf = \<lparr>u8_buffer = buf, u8_byteOffset = 0, u8_byteLength = length buf\<rparr>"

section \<open>Scene composition\<close>

subsection \<open>Geometry and materials\<close>

text \<open>
  The elements of the \<^verbatim>\<open>Float32Array\<close>s that \<^verbatim>\<open>buildPrimitive\<close> creates are kept symbolic,
  so that no rounding has to be modelled: \<open>F32_bits b\<close> is the float with bit pattern
  \<open>b\<close> (an element copied from a \<^verbatim>\<open>Float32Array\<close>), \<open>F32_of_int i\<close> is the integer \<open>i\<close>
  converted to a float (an element copied from an integer array), and \<open>F32_quot c d\<close> is
  the quotient \<^verbatim>\<open>c / d\<close> stored to a float.
\<close>

datatype f32 = F32_bits int | F32_of_int int | F32_quot int int

text \<open>\<^verbatim>\<open>new Float32Array(typedArray)\<close>.\<close>

definition to_Float32Array :: "typed_array \<Rightarrow> f32 list" where
  "to_Float32Array a =
     (case array_kind a of
        Float32Array \<Rightarrow> map F32_bits (elems a)
      | _ \<Rightarrow> map F32_of_int (elems a))"

text \<open>\<^verbatim>\<open>new Uint32Array(indices)\<close> and \<^verbatim>\<open>new Uint16Array(indices)\<close>: the conversion of the
  resolved array, kept symbolic.\<close>

datatype index_array = To_Uint32Array typed_array | To_Uint16Array typed_array

text \<open>The attributes of a \<^verbatim>\<open>THREE.BufferGeometry\<close>; the colour attribute carries its item
  size; \<open>g_computeVertexNormals\<close> records the call of \<^verbatim>\<open>computeVertexNormals\<close>.\<close>

record geometry =
  g_position :: "f32 list"
  g_normal :: "f32 list option"
  g_uv :: "f32 list option"
  g_color :: "(f32 list \<times> nat option) option"
  g_index :: "index_array option"
  g_computeVertexNormals :: bool

text \<open>The arguments given to \<^verbatim>\<open>new THREE.Color\<close>, and the parameters given to
  \<^verbatim>\<open>new THREE.MeshStandardMaterial\<close>.\<close>

datatype color = Color_rgb "real option" "real option" "real option" | Color_hex nat

datatype side = DoubleSide | FrontSide

record material_props =
  mp_metalness :: "real option"
  mp_roughness :: "real option"
  mp_side :: side
  mp_color :: "color option"
  mp_transparent :: "bool option"
  mp_opacity :: "real option"
  mp_alphaTest :: "real option"
  mp_emissive :: "color option"
  mp_emissiveIntensity :: "real option"
  mp_vertexColors :: "bool option"

text \<open>The transform \<^verbatim>\<open>processNode\<close> gives an object: the matrix applied with
  \<^verbatim>\<open>applyMatrix4\<close>, or the position, quaternion and scale set with \<^verbatim>\<open>fromArray\<close>.\<close>

record transform =
  t_matrix :: "real list option"
  t_position :: "real list option"
  t_quaternion :: "real list option"
  t_scale :: "real list option"

datatype object3d = Mesh geometry material_props | Group transform "object3d list"

definition identity_transform :: transform where
  "identity_transform =
     \<lparr>t_matrix = None, t_position = None, t_quaternion = None, t_scale = None\<rparr>"

subsection \<open>buildMaterial\<close>

text \<open>The part common to both files: \<^verbatim>\<open>const [r, g, b, a] = pbr.baseColorFactor\<close> with the
  colour and, for \<^verbatim>\<open>a < 1.0\<close>, the transparency.\<close>

definition base_color :: "real list \<Rightarrow> material_props \<Rightarrow> material_props" where
  "base_color f props =
     (let props' = props\<lparr>mp_color := Some (Color_rgb (js_nth f 0) (js_nth f 1) (js_nth f 2))\<rparr>
      in case js_nth f 3 of
           None \<Rightarrow> props'
         | Some a \<Rightarrow> if a < 1 then props'\<lparr>mp_transparent := Some True, mp_opacity := Some a\<rparr>
                     else props')"

definition MV_buildMaterial :: "gltf \<Rightarrow> primitive \<Rightarrow> error + material_props" where
  "MV_buildMaterial gltfJson primitive =
     (let materialProps =
            \<lparr>mp_metalness = Some (1 / 10), mp_roughness = Some (8 / 10), mp_side = DoubleSide,
             mp_color = None, mp_transparent = None, mp_opacity = None, mp_alphaTest = None,
             mp_emissive = None, mp_emissiveIntensity = None, mp_vertexColors = None\<rparr>;
          hasVertexColors = (COLOR_0 primitive \<noteq> None);
          finish = (\<lambda>props.
            let props1 = (if hasVertexColors then props\<lparr>mp_vertexColors := Some True\<rparr> else props)
            in if mp_color props1 = None \<and> \<not> hasVertexColors
               then props1\<lparr>mp_color := Some (Color_hex 0x8899aa)\<rparr> else props1)
      in case (p_material primitive, materials gltfJson) of
           (Some m, Some mats) \<Rightarrow>
             (case js_nth mats m of
                None \<Rightarrow> Inl TypeError
              | Some mat \<Rightarrow>
                 (let props1 =
                        (case pbrMetallicRoughness mat of
                           None \<Rightarrow> materialProps
                         | Some pbr \<Rightarrow>
                            (let p1 = (case baseColorFactor pbr of
                                         None \<Rightarrow> materialProps
                                       | Some f \<Rightarrow> base_color f materialProps);
                                 p2 = (case metallicFactor pbr of
                                         None \<Rightarrow> p1 | Some x \<Rightarrow> p1\<lparr>mp_metalness := Some x\<rparr>)
                             in case roughnessFactor pbr of
                                  None \<Rightarrow> p2 | Some x \<Rightarrow> p2\<lparr>mp_roughness := Some x\<rparr>));
                      props2 =
                        (case emissiveFactor mat of
                           None \<Rightarrow> props1
                         | Some e \<Rightarrow>
                             props1\<lparr>mp_emissive :=
                               Some (Color_rgb (js_nth e 0) (js_nth e 1) (js_nth e 2))\<rparr>);
                      props3 =
                        (if doubleSided mat = Some False then props2\<lparr>mp_side := FrontSide\<rparr>
                         else props2)
                  in Inr (finish props3)))
         | _ \<Rightarrow> Inr (finish materialProps))"

definition AR_buildMaterial :: "gltf \<Rightarrow> primitive \<Rightarrow> error + material_props" where
  "AR_buildMaterial gltfJson primitive =
     (let materialProps =
            \<lparr>mp_metalness = None, mp_roughness = None, mp_side = DoubleSide,
             mp_color = None, mp_transparent = None, mp_opacity = None, mp_alphaTest = None,
             mp_emissive = None, mp_emissiveIntensity = None, mp_vertexColors = None\<rparr>;
          finish = (\<lambda>props.
            let props1 = (if mp_color props = None
                          then props\<lparr>mp_color := Some (Color_hex 0xcccccc)\<rparr> else props)
            in props1\<lparr>mp_emissive := Some (Color_hex 0x111111),
                       mp_emissiveIntensity := Some (2 / 10)\<rparr>)
      in case (p_material primitive, materials gltfJson) of
           (Some m, Some mats) \<Rightarrow>
             (case js_nth mats m of
                None \<Rightarrow> Inl TypeError
              | Some mat \<Rightarrow>
                 (let props1 =
                        (case pbrMetallicRoughness mat of
                           None \<Rightarrow> materialProps
                         | Some pbr \<Rightarrow>
                            (let p1 = (case baseColorFactor pbr of
                                         None \<Rightarrow> materialProps
                                       | Some f \<Rightarrow> base_color f materialProps)
                             in p1\<lparr>mp_metalness :=
                                      Some (case metallicFactor pbr of None \<Rightarrow> 0 | Some x \<Rightarrow> x),
                                    mp_roughness :=
                                      Some (case roughnessFactor pbr of None \<Rightarrow> 1 | Some x \<Rightarrow> x)\<rparr>));
                      props2 =
                        (if alphaMode mat = Some ''BLEND'' then
                           (let p = props1\<lparr>mp_transparent := Some True\<rparr>
                            in case alphaCutoff mat of
                                 None \<Rightarrow> p | Some c \<Rightarrow> p\<lparr>mp_alphaTest := Some c\<rparr>)
                         else if alphaMode mat = Some ''MASK'' then
                           props1\<lparr>mp_alphaTest :=
                             Some (case alphaCutoff mat of None \<Rightarrow> 1 / 2 | Some c \<Rightarrow> c)\<rparr>
                         else props1);
                      props3 =
                        (if doubleSided mat = Some False then props2\<lparr>mp_side := FrontSide\<rparr>
                         else props2)
                  in Inr (finish props3)))
         | _ \<Rightarrow> Inr (finish materialProps))"

definition buildMaterial :: "screen \<Rightarrow> gltf \<Rightarrow> primitive \<Rightarrow> error + material_props" where
  "buildMaterial scr gltfJson primitive =
     (case scr of
        ModelViewerScreen \<Rightarrow> MV_buildMaterial gltfJson primitive
      | ARViewScreen \<Rightarrow> AR_buildMaterial gltfJson primitive)"

subsection \<open>buildPrimitive\<close>

text \<open>The blocks for the normals and the texture coordinates: an attribute that is present
  is resolved and converted.\<close>

definition optional_attribute ::
  "screen \<Rightarrow> gltf \<Rightarrow> uint8array \<Rightarrow> nat option \<Rightarrow> error + f32 list option" where
  "optional_attribute scr gltfJson binaryData attribute =
     (case attribute of
        None \<Rightarrow> Inr None
      | Some a \<Rightarrow>
         (case readAccessor scr gltfJson binaryData a of
            Inl e \<Rightarrow> Inl e
          | Inr arr \<Rightarrow> Inr (Some (to_Float32Array arr))))"

text \<open>The block for the vertex colours: the loops that divide by 255 and by 65535, and the
  plain conversion for every other component type.\<close>

definition color_array :: "nat \<Rightarrow> typed_array \<Rightarrow> f32 list" where
  "color_array componentType colors =
     (if componentType = 5121 then map (\<lambda>c. F32_quot c 255) (elems colors)
      else if componentType = 5123 then map (\<lambda>c. F32_quot c 65535) (elems colors)
      else to_Float32Array colors)"

definition color_attribute ::
  "screen \<Rightarrow> gltf \<Rightarrow> uint8array \<Rightarrow> nat option \<Rightarrow> error + (f32 list \<times> nat option) option" where
  "color_attribute scr gltfJson binaryData attribute =
     (case attribute of
        None \<Rightarrow> Inr None
      | Some a \<Rightarrow>
         (case readAccessor scr gltfJson binaryData a of
            Inl e \<Rightarrow> Inl e
          | Inr colors \<Rightarrow>
             (case accessors gltfJson of None \<Rightarrow> Inl TypeError | Some accs \<Rightarrow>
              (case js_nth accs a of None \<Rightarrow> Inl TypeError | Some accessor \<Rightarrow>
                 (let numComponents = TYPE_SIZES (a_type accessor);
                      colorArray = color_array (a_componentType accessor) colors
                  in Inr (Some (colorArray, numComponents)))))))"

text \<open>The block for the indices (the three branches of ModelViewerScreen.js and the two of
  ARViewScreen.js choose the same arrays).\<close>

definition index_attribute ::
  "screen \<Rightarrow> gltf \<Rightarrow> uint8array \<Rightarrow> nat option \<Rightarrow> error + index_array option" where
  "index_attribute scr gltfJson binaryData attribute =
     (case attribute of
        None \<Rightarrow> Inr None
      | Some a \<Rightarrow>
         (case readAccessor scr gltfJson binaryData a of
            Inl e \<Rightarrow> Inl e
          | Inr indices \<Rightarrow>
             (case accessors gltfJson of None \<Rightarrow> Inl TypeError | Some accs \<Rightarrow>
              (case js_nth accs a of None \<Rightarrow> Inl TypeError | Some accessor \<Rightarrow>
                 (if a_componentType accessor = 5125 then Inr (Some (To_Uint32Array indices))
                  else Inr (Some (To_Uint16Array indices)))))))"

text \<open>\<^verbatim>\<open>buildPrimitive\<close>: \<open>Inr None\<close> is the \<^verbatim>\<open>return null\<close> after the warning
  \<^verbatim>\<open>'Primitive has no POSITION attribute, skipping'\<close>. No exception is caught.\<close>

definition buildPrimitive ::
  "screen \<Rightarrow> gltf \<Rightarrow> uint8array option \<Rightarrow> primitive \<Rightarrow> error + object3d option" where
  "buildPrimitive scr gltfJson binaryData primitive =
     (case binaryData of
        None \<Rightarrow> Inl NoBinaryChunk
      | Some bin \<Rightarrow>
         (case POSITION primitive of
            None \<Rightarrow> Inr None
          | Some pos \<Rightarrow>
             (case readAccessor scr gltfJson bin pos of Inl e \<Rightarrow> Inl e | Inr positions \<Rightarrow>
              (case optional_attribute scr gltfJson bin (NORMAL primitive) of
                 Inl e \<Rightarrow> Inl e | Inr normals \<Rightarrow>
               (case optional_attribute scr gltfJson bin (TEXCOORD_0 primitive) of
                  Inl e \<Rightarrow> Inl e | Inr uvs \<Rightarrow>
                (case color_attribute scr gltfJson bin (COLOR_0 primitive) of
                   Inl e \<Rightarrow> Inl e | Inr colors \<Rightarrow>
                 (case index_attribute scr gltfJson bin (p_indices primitive) of
                    Inl e \<Rightarrow> Inl e | Inr indices \<Rightarrow>
                  (case buildMaterial scr gltfJson primitive of
                     Inl e \<Rightarrow> Inl e | Inr material \<Rightarrow>
                       Inr (Some (Mesh
                         \<lparr>g_position = to_Float32Array positions, g_normal = normals,
                          g_uv = uvs, g_color = colors, g_index = indices,
                          g_computeVertexNormals = (NORMAL primitive = None)\<rparr>
                         material))))))))))"

text \<open>The loop \<^verbatim>\<open>for (const primitive of ...primitives)\<close> with
  \<^verbatim>\<open>if (threeMesh) obj.add(threeMesh)\<close>.\<close>

fun buildPrimitives ::
  "screen \<Rightarrow> gltf \<Rightarrow> uint8array option \<Rightarrow> primitive list \<Rightarrow> error + object3d list" where
  "buildPrimitives scr gltfJson binaryData [] = Inr []"
| "buildPrimitives scr gltfJson binaryData (primitive # rest) =
     (case buildPrimitive scr gltfJson binaryData primitive of
        Inl e \<Rightarrow> Inl e
      | Inr threeMesh \<Rightarrow>
         (case buildPrimitives scr gltfJson binaryData rest of
            Inl e \<Rightarrow> Inl e
          | Inr objs \<Rightarrow> Inr (case threeMesh of None \<Rightarrow> objs | Some m \<Rightarrow> m # objs)))"

subsection \<open>processNode\<close>

definition node_transform :: "node \<Rightarrow> transform" where
  "node_transform node =
     (case n_matrix node of
        Some m \<Rightarrow> identity_transform\<lparr>t_matrix := Some m\<rparr>
      | None \<Rightarrow>
          \<lparr>t_matrix = None, t_position = n_translation node, t_quaternion = n_rotation node,
           t_scale = n_scale node\<rparr>)"

text \<open>\<^verbatim>\<open>if (node.children)\<close>: the children to process, none when the property is absent.\<close>

definition node_children :: "node \<Rightarrow> nat list" where
  "node_children node = (case n_children node of None \<Rightarrow> [] | Some cs \<Rightarrow> cs)"

text \<open>The meshes of a node: \<^verbatim>\<open>gltfJson.meshes[node.mesh]\<close> and the loop over its
  primitives; reading \<^verbatim>\<open>.primitives\<close> of a mesh that does not exist is a \<open>TypeError\<close>.\<close>

definition node_meshes :: "screen \<Rightarrow> gltf \<Rightarrow> uint8array option \<Rightarrow> node \<Rightarrow> error + object3d list" where
  "node_meshes scr gltfJson binaryData node =
     (case n_mesh node of
        None \<Rightarrow> Inr []
      | Some m \<Rightarrow>
         (case meshes gltfJson of None \<Rightarrow> Inl TypeError | Some ms \<Rightarrow>
          (case js_nth ms m of None \<Rightarrow> Inl TypeError | Some meshDef \<Rightarrow>
             buildPrimitives scr gltfJson binaryData (m_primitives meshDef))))"

text \<open>
  \<^verbatim>\<open>processNode\<close> calls itself for every child, without any record of the nodes it has
  visited. What ends a recursion that goes on is the engine: the call stack is finite,
  and the call that does not fit raises \<open>RangeError\<close>
  (\<^verbatim>\<open>'Maximum call stack size exceeded'\<close>), an exception like any other, which \<^verbatim>\<open>loadModel\<close>
  catches. The first argument, \<open>stack\<close>, is the number of nested calls of
  \<^verbatim>\<open>processNode\<close> that still fit on the stack; the frames of the other functions are not
  counted. \<open>processChildren\<close> is the loop
  \<^verbatim>\<open>for (const childIndex of node.children) { const child = processNode(...); if (child) obj.add(child) }\<close>;
  the same loop runs over the root nodes in \<^verbatim>\<open>buildSceneFromGLTF\<close>. A node that does not
  exist gives \<^verbatim>\<open>null\<close>.
\<close>

fun processNode ::
    "nat \<Rightarrow> screen \<Rightarrow> gltf \<Rightarrow> uint8array option \<Rightarrow> nat \<Rightarrow> error + object3d option"
  and processChildren ::
    "nat \<Rightarrow> screen \<Rightarrow> gltf \<Rightarrow> uint8array option \<Rightarrow> nat list \<Rightarrow> error + object3d list"
  where
  "processNode 0 scr gltfJson binaryData nodeIndex = Inl RangeError"
| "processNode (Suc stack) scr gltfJson binaryData nodeIndex =
     (case nodes gltfJson of
        None \<Rightarrow> Inl TypeError
      | Some nds \<Rightarrow>
         (case js_nth nds nodeIndex of
            None \<Rightarrow> Inr None
          | Some node \<Rightarrow>
             (case node_meshes scr gltfJson binaryData node of
                Inl e \<Rightarrow> Inl e
              | Inr ms \<Rightarrow>
                 (case processChildren stack scr gltfJson binaryData (node_children node) of
                    Inl e \<Rightarrow> Inl e
                  | Inr children \<Rightarrow>
                      Inr (Some (Group (node_transform node) (ms @ children)))))))"
| "processChildren stack scr gltfJson binaryData [] = Inr []"
| "processChildren stack scr gltfJson binaryData (childIndex # rest) =
     (case processNode stack scr gltfJson binaryData childIndex of
        Inl e \<Rightarrow> Inl e
      | Inr child \<Rightarrow>
         (case processChildren stack scr gltfJson binaryData rest of
            Inl e \<Rightarrow> Inl e
          | Inr objs \<Rightarrow> Inr (case child of None \<Rightarrow> objs | Some obj \<Rightarrow> obj # objs)))"

subsection \<open>buildSceneFromGLTF and loadModel\<close>

text \<open>The fallback loop over all meshes.\<close>

fun buildMeshes ::
  "screen \<Rightarrow> gltf \<Rightarrow> uint8array option \<Rightarrow> mesh list \<Rightarrow> error + object3d list" where
  "buildMeshes scr gltfJson binaryData [] = Inr []"
| "buildMeshes scr gltfJson binaryData (mesh # rest) =
     (case buildPrimitives scr gltfJson binaryData (m_primitives mesh) of
        Inl e \<Rightarrow> Inl e
      | Inr objs \<Rightarrow>
         (case buildMeshes scr gltfJson binaryData rest of
            Inl e \<Rightarrow> Inl e
          | Inr objs' \<Rightarrow> Inr (objs @ objs')))"

text \<open>\<^verbatim>\<open>buildSceneFromGLTF\<close>, with the stack that is left for \<^verbatim>\<open>processNode\<close>.\<close>

definition buildSceneFromGLTF ::
  "nat \<Rightarrow> screen \<Rightarrow> gltf \<Rightarrow> uint8array option \<Rightarrow> error + object3d" where
  "buildSceneFromGLTF stack scr gltfJson binaryData =
     (let fallback = (\<lambda>ms. map_sum id (Group identity_transform)
                             (buildMeshes scr gltfJson binaryData ms))
      in case meshes gltfJson of
           None \<Rightarrow> Inl NoMeshes
         | Some ms \<Rightarrow>
            if ms = [] then Inl NoMeshes
            else
              (case (nodes gltfJson, scenes gltfJson) of
                 (Some nds, Some scs) \<Rightarrow>
                   (let sceneIndex = (case scene gltfJson of None \<Rightarrow> 0 | Some s \<Rightarrow> s)
                    in case js_nth scs sceneIndex of
                         None \<Rightarrow> fallback ms
                       | Some sc \<Rightarrow>
                          (case s_nodes sc of
                             None \<Rightarrow> fallback ms
                           | Some roots \<Rightarrow>
                               map_sum id (Group identity_transform)
                                 (processChildren stack scr gltfJson binaryData roots)))
               | _ \<Rightarrow> fallback ms))"

text \<open>The number of meshes \<^verbatim>\<open>group.traverse\<close> finds.\<close>

fun meshCount :: "object3d \<Rightarrow> nat" where
  "meshCount (Mesh g m) = 1"
| "meshCount (Group t children) = sum_list (map meshCount children)"

text \<open>
  The synchronous core of \<^verbatim>\<open>loadModel\<close>, from the call of \<^verbatim>\<open>buildSceneFromGLTF\<close> up to the
  call of \<^verbatim>\<open>normalizeModel\<close>: ARViewScreen.js counts the meshes of the scene and throws
  \<^verbatim>\<open>'GLB parsing produced no renderable meshes'\<close> when there is none; ModelViewerScreen.js
  has no such check. An exception is the result \<open>Inl\<close>: both files catch it and show the
  error state.
\<close>

definition loadModel :: "nat \<Rightarrow> screen \<Rightarrow> gltf \<Rightarrow> uint8array option \<Rightarrow> error + object3d" where
  "loadModel stack scr gltfJson binaryData =
     (case buildSceneFromGLTF stack scr gltfJson binaryData of
        Inl e \<Rightarrow> Inl e
      | Inr grp \<Rightarrow>
         (case scr of
            ModelViewerScreen \<Rightarrow> Inr grp
          | ARViewScreen \<Rightarrow>
              if meshCount grp = 0 then Inl NoRenderableMeshes
              else Inr grp))"

subsection \<open>Inputs for stating properties of scene composition\<close>

text \<open>
  Not part of the source: a primitive with the given attributes, and four documents.
  \<open>cyclic_doc\<close> has one node, without a mesh, that is its own child, and one scene with
  this node as its root. \<open>unsupported_normal_doc\<close> has one mesh with one primitive whose
  position is a float \<^verbatim>\<open>VEC3\<close> and whose normal has the component type 5124 (a signed
  32-bit integer, which \<^verbatim>\<open>COMPONENT_TYPES\<close> does not list), and no node hierarchy.
  \<open>no_position_doc\<close> has one mesh with one primitive without attributes.
  \<open>byte_color_doc\<close> has a float position and a colour of four unsigned bytes at byte
  offset 12.
\<close>


definition prim :: "nat option \<Rightarrow> nat option \<Rightarrow> nat option \<Rightarrow> primitive" where
  "prim pos nor col =
     \<lparr>POSITION = pos, NORMAL = nor, TEXCOORD_0 = None, COLOR_0 = col, p_indices = None,
      p_material = None\<rparr>"

definition cyclic_doc :: gltf where
  "cyclic_doc =
     \<lparr>accessors = None, bufferViews = None,
      meshes = Some [\<lparr>m_primitives = []\<rparr>], materials = None,
      nodes = Some [\<lparr>n_mesh = None, n_matrix = None, n_translation = None, n_rotation = None,
                     n_scale = None, n_children = Some [0]\<rparr>],
      scenes = Some [\<lparr>s_nodes = Some [0]\<rparr>], scene = None\<rparr>"

definition unsupported_normal_doc :: gltf where
  "unsupported_normal_doc =
     \<lparr>accessors = Some
        [\<lparr>a_bufferView = Some 0, a_componentType = 5126, a_type = ''VEC3'', a_count = 1,
          a_byteOffset = None\<rparr>,
         \<lparr>a_bufferView = Some 0, a_componentType = 5124, a_type = ''VEC3'', a_count = 1,
          a_byteOffset = None\<rparr>],
      bufferViews = Some [\<lparr>bv_byteOffset = None, bv_byteStride = None\<rparr>],
      meshes = Some [\<lparr>m_primitives = [prim (Some 0) (Some 1) None]\<rparr>], materials = None,
      nodes = None, scenes = None, scene = None\<rparr>"

definition no_position_doc :: gltf where
  "no_position_doc =
     \<lparr>accessors = None, bufferViews = None,
      meshes = Some [\<lparr>m_primitives = [prim None None None]\<rparr>], materials = None,
      nodes = None, scenes = None, scene = None\<rparr>"

definition byte_color_doc :: gltf where
  "byte_color_doc =
     \<lparr>accessors = Some
        [\<lparr>a_bufferView = Some 0, a_componentType = 5126, a_type = ''VEC3'', a_count = 1,
          a_byteOffset = None\<rparr>,
         \<lparr>a_bufferView = Some 0, a_componentType = 5121, a_type = ''VEC4'', a_count = 1,
          a_byteOffset = Some 12\<rparr>],
      bufferViews = Some [\<lparr>bv_byteOffset = None, bv_byteStride = None\<rparr>],
      meshes = Some [\<lparr>m_primitives = [prim (Some 0) None (Some 1)]\<rparr>], materials = None,
      nodes = None, scenes = None, scene = None\<rparr>"

section \<open>Normalization\<close>

text \<open>
  \<^verbatim>\<open>normalizeModel\<close> works on the scene that \<^verbatim>\<open>buildSceneFromGLTF\<close> returned, through
  three.js: \<^verbatim>\<open>Box3.setFromObject\<close>, the positions of the group's children and the
  group's own position and scale. The model keeps what these operations see.

  The group has a position and a scale and no rotation, as \<^verbatim>\<open>new THREE.Group()\<close> leaves
  it. A child of the group has a position. \<^verbatim>\<open>Box3.setFromObject\<close> (called without
  \<^verbatim>\<open>precise\<close>) does not look at the vertices: for every mesh it takes the bounding box of
  the geometry in the mesh's own coordinates, carries the eight corners of this box to
  world space with the mesh's world matrix, and joins the boxes of the carried corners.
  So a child is modelled with two lists of points, both relative to the child's position,
  that is, after the child's own rotation and scale and the transforms of the nodes
  below it: \<open>c_corners\<close>, the corners of the local boxes of the meshes of its subtree,
  and \<open>c_vertices\<close>, the vertices of these meshes. Where no node is rotated the box of
  the corners is the box of the vertices; under a rotation it can be larger. A point
  \<open>u\<close> of a child at position \<open>p\<close> is in world space at the group's position plus the
  group's scale times \<open>p + u\<close>.

  Numbers are real numbers: the rounding of floating-point arithmetic is not modelled, and
  "within tolerance" becomes equality.
\<close>

type_synonym vec3 = "real \<times> real \<times> real"

definition vx :: "vec3 \<Rightarrow> real" where "vx v = fst v"
definition vy :: "vec3 \<Rightarrow> real" where "vy v = fst (snd v)"
definition vz :: "vec3 \<Rightarrow> real" where "vz v = snd (snd v)"

definition vadd :: "vec3 \<Rightarrow> vec3 \<Rightarrow> vec3" where
  "vadd a b = (vx a + vx b, vy a + vy b, vz a + vz b)"

definition vsub :: "vec3 \<Rightarrow> vec3 \<Rightarrow> vec3" where
  "vsub a b = (vx a - vx b, vy a - vy b, vz a - vz b)"

definition vmul :: "vec3 \<Rightarrow> vec3 \<Rightarrow> vec3" where
  "vmul a b = (vx a * vx b, vy a * vy b, vz a * vz b)"

definition multiplyScalar :: "vec3 \<Rightarrow> real \<Rightarrow> vec3" where
  "multiplyScalar a s = (vx a * s, vy a * s, vz a * s)"

record child3d =
  c_position :: vec3
  c_corners :: "vec3 list"
  c_vertices :: "vec3 list"

record group3d =
  grp_position :: vec3
  grp_scale :: vec3
  grp_children :: "child3d list"

text \<open>The world positions of the points that \<open>sel\<close> selects from every child.\<close>

definition world_of :: "(child3d \<Rightarrow> vec3 list) \<Rightarrow> group3d \<Rightarrow> vec3 list" where
  "world_of sel grp =
     concat (map (\<lambda>c. map (\<lambda>u. vadd (grp_position grp)
                                  (vmul (grp_scale grp) (vadd (c_position c) u)))
                           (sel c))
                 (grp_children grp))"

definition world_corners :: "group3d \<Rightarrow> vec3 list" where
  "world_corners grp = world_of c_corners grp"

definition world_vertices :: "group3d \<Rightarrow> vec3 list" where
  "world_vertices grp = world_of c_vertices grp"

text \<open>\<^verbatim>\<open>new THREE.Box3().setFromObject(group)\<close>: \<open>None\<close> is the empty box, otherwise the
  corners \<^verbatim>\<open>min\<close> and \<^verbatim>\<open>max\<close> of the box around the carried corners. \<^verbatim>\<open>getCenter\<close> and
  \<^verbatim>\<open>getSize\<close> give the zero vector for the empty box.\<close>

definition setFromObject :: "group3d \<Rightarrow> (vec3 \<times> vec3) option" where
  "setFromObject grp =
     (let pts = world_corners grp
      in if pts = [] then None
         else Some ((Min (vx ` set pts), Min (vy ` set pts), Min (vz ` set pts)),
                    (Max (vx ` set pts), Max (vy ` set pts), Max (vz ` set pts))))"

definition getCenter :: "(vec3 \<times> vec3) option \<Rightarrow> vec3" where
  "getCenter box =
     (case box of None \<Rightarrow> (0, 0, 0) | Some (mn, mx) \<Rightarrow> multiplyScalar (vadd mn mx) (1 / 2))"

definition getSize :: "(vec3 \<times> vec3) option \<Rightarrow> vec3" where
  "getSize box = (case box of None \<Rightarrow> (0, 0, 0) | Some (mn, mx) \<Rightarrow> vsub mx mn)"

definition box_min :: "(vec3 \<times> vec3) option \<Rightarrow> vec3" where
  "box_min box = (case box of None \<Rightarrow> (0, 0, 0) | Some (mn, mx) \<Rightarrow> mn)"

definition maxDim_of :: "vec3 \<Rightarrow> real" where
  "maxDim_of sz = max (max (vx sz) (vy sz)) (vz sz)"

text \<open>The two mutations: \<^verbatim>\<open>child.position.x += offsetX\<close> (and \<open>y\<close>, \<open>z\<close>) for every
  direct child of the group, and \<^verbatim>\<open>group.scale.multiplyScalar(scale)\<close>.\<close>

definition move_children :: "group3d \<Rightarrow> vec3 \<Rightarrow> group3d" where
  "move_children grp off =
     grp\<lparr>grp_children :=
           map (\<lambda>child. child\<lparr>c_position := vadd (c_position child) off\<rparr>)
               (grp_children grp)\<rparr>"

definition scale_group :: "group3d \<Rightarrow> real \<Rightarrow> group3d" where
  "scale_group grp scale = grp\<lparr>grp_scale := multiplyScalar (grp_scale grp) scale\<rparr>"

text \<open>
  ARViewScreen.js: "STEP 1" moves the children by the offsets of the box measured before
  any scaling, "STEP 2" scales the group; the result is the group and the dimension
  report (the size before normalization; the source formats it with \<^verbatim>\<open>toFixed(3)\<close>).
  \<open>box_min\<close> is read only for a box that is not empty.
\<close>

definition AR_normalizeModel :: "group3d \<Rightarrow> real \<Rightarrow> group3d \<times> vec3" where
  "AR_normalizeModel grp targetSize =
     (let box = setFromObject grp;
          center = getCenter box;
          sz = getSize box;
          maxDim = maxDim_of sz
      in if maxDim = 0 then (grp, (0, 0, 0))
         else
           (let offsetX = - vx center;
                offsetZ = - vz center;
                offsetY = - vy (box_min box);
                moved = move_children grp (offsetX, offsetY, offsetZ);
                scale = targetSize / maxDim
            in (scale_group moved scale, sz)))"




definition tilted_segment :: group3d where
  "tilted_segment =
     \<lparr>grp_position = (0, 0, 0), grp_scale = (1, 1, 1),
      grp_children =
        [\<lparr>c_position = (0, 0, 0),
          c_corners = [(0, 0, 0), (1, 1, 0), (- 1, 1, 0), (0, 2, 0)],
          c_vertices = [(- 1, 1, 0), (1, 1, 0)]\<rparr>]\<rparr>"

section \<open>Properties of the container parser\<close>

subsection \<open>Auxiliary facts\<close>

lemma new_Uint8Array_Inl: "new_Uint8Array buf off len = Inl e \<Longrightarrow> e = RangeError"
  by (simp add: new_Uint8Array_def split: if_splits)

lemma read_chunks_oversize:
  "(off, len, ty) \<in> set (visited_chunks buf tot off0) \<Longrightarrow>
   ty = CHUNK_TYPE_JSON \<or> ty = CHUNK_TYPE_BIN \<Longrightarrow>
   length buf < off + 8 + len \<Longrightarrow>
   read_chunks P buf tot off0 j b = Inl RangeError \<or>
   read_chunks P buf tot off0 j b = Inl SyntaxError"
proof (induction buf tot off0 arbitrary: j b rule: visited_chunks.induct)
  case (1 buf tot off0)
  note vs = visited_chunks.simps[of buf tot off0]
  note rs = read_chunks.simps[of P buf tot off0 j b]
  have lt: "off0 < tot"
  proof (rule ccontr)
    assume "\<not> off0 < tot"
    with "1.prems"(1) show False by (simp add: vs)
  qed
  obtain cl where cl: "getUint32 buf off0 = Inr cl"
  proof (cases "getUint32 buf off0")
    case (Inl e)
    with "1.prems"(1) lt show ?thesis by (simp add: vs)
  next
    case (Inr c)
    then show ?thesis by (rule that)
  qed
  obtain ct where ct: "getUint32 buf (off0 + 4) = Inr ct"
  proof (cases "getUint32 buf (off0 + 4)")
    case (Inl e)
    with "1.prems"(1) lt cl show ?thesis by (simp add: vs)
  next
    case (Inr c)
    then show ?thesis by (rule that)
  qed
  from "1.prems"(1) lt cl ct
  have mem: "(off, len, ty) = (off0, cl, ct) \<or>
             (off, len, ty) \<in> set (visited_chunks buf tot (off0 + (8 + cl)))"
    by (simp add: vs)
  show ?case
  proof (cases "(off, len, ty) = (off0, cl, ct)")
    case True
    then have big: "length buf < off0 + 8 + cl" and tyc: "ct = CHUNK_TYPE_JSON \<or> ct = CHUNK_TYPE_BIN"
      using "1.prems"(2,3) by auto
    then have "new_Uint8Array buf (off0 + 8) cl = Inl RangeError"
      by (simp add: new_Uint8Array_def)
    with lt cl ct tyc show ?thesis
      by (auto simp add: rs)
  next
    case False
    with mem have m: "(off, len, ty) \<in> set (visited_chunks buf tot (off0 + (8 + cl)))" by blast
    have rec: "read_chunks P buf tot (off0 + (8 + cl)) j' b' = Inl RangeError \<or>
               read_chunks P buf tot (off0 + (8 + cl)) j' b' = Inl SyntaxError" for j' b'
      using "1.IH"[OF lt cl ct m "1.prems"(2,3)] .
    show ?thesis
      using lt cl ct rec
      by (auto simp add: rs split: sum.splits option.splits dest: new_Uint8Array_Inl)
  qed
qed

lemma le_nat_le32: "n < 2 ^ 32 \<Longrightarrow> le_nat (le32 n) = n"
proof -
  assume n: "n < 2 ^ 32"
  have d2: "n div 65536 = n div 256 div 256" and d3: "n div 16777216 = n div 256 div 256 div 256"
    by (simp_all add: div_mult2_eq)
  have small: "n div 256 div 256 div 256 < 256"
    using n by simp
  have e0: "n = n mod 256 + 256 * (n div 256)" by simp
  have e1: "n div 256 = n div 256 mod 256 + 256 * (n div 256 div 256)" by simp
  have e2: "n div 256 div 256 = n div 256 div 256 mod 256 + 256 * (n div 256 div 256 div 256)"
    by simp
  have "le_nat (le32 n) =
        n mod 256 + 256 * (n div 256 mod 256 + 256 * (n div 256 div 256 mod 256 +
          256 * (n div 256 div 256 div 256)))"
    using small by (simp add: le32_def unat_of_nat d2 d3)
  also have "\<dots> = n"
    using e0 e1 e2 by presburger
  finally show ?thesis .
qed

lemma length_le32 [simp]: "length (le32 n) = 4"
  by (simp add: le32_def)

lemma getUint32_at:
  "n < 2 ^ 32 \<Longrightarrow> getUint32 (pre @ le32 n @ post) (length pre) = Inr n"
  by (simp add: getUint32_def le_nat_le32)


lemma chunk_bytes_pair: "chunk_bytes (ty, p) = le32 (length p) @ le32 ty @ p"
  by (simp add: chunk_bytes_def)

lemma of_type_Cons:
  "of_type ty (c # cs) = (if fst c = ty then snd c # of_type ty cs else of_type ty cs)"
  by (simp add: of_type_def)

lemma of_type_Nil [simp]: "of_type ty [] = []"
  by (simp add: of_type_def)

lemma chunk_types_distinct: "CHUNK_TYPE_JSON \<noteq> CHUNK_TYPE_BIN"
  by (simp add: CHUNK_TYPE_JSON_def CHUNK_TYPE_BIN_def)

lemma read_chunks_done:
  "\<not> offset < tot \<Longrightarrow>
   read_chunks P buf tot offset j b = (if truthy j then Inr (j, b) else Inl NoJsonChunk)"
  by (simp add: read_chunks.simps)

lemma read_chunks_step:
  assumes "offset < tot"
    and "getUint32 buf offset = Inr len"
    and "getUint32 buf (offset + 4) = Inr ty"
    and "new_Uint8Array buf (offset + 8) len = Inr v"
    and "ty = CHUNK_TYPE_JSON \<Longrightarrow> P (fromCharCodes (bytes_of v)) = Some j'"
  shows "read_chunks P buf tot offset j b =
         read_chunks P buf tot (offset + (8 + len))
           (if ty = CHUNK_TYPE_JSON then j' else j)
           (if ty = CHUNK_TYPE_BIN then Some v else b)"
  using assms chunk_types_distinct
  by (subst read_chunks.simps) auto

lemma read_chunks_container:
  assumes "\<forall>c\<in>set cs. fst c < 2 ^ 32 \<and> length (snd c) < 2 ^ 32 \<and>
             (fst c = CHUNK_TYPE_JSON \<longrightarrow> P (fromCharCodes (snd c)) \<noteq> None)"
    and "buf = pre @ concat (map chunk_bytes cs)"
  shows "\<exists>j b. read_chunks P buf (length buf) (length pre) j0 b0 =
                 (if truthy j then Inr (j, b) else Inl NoJsonChunk) \<and>
               j = (if of_type CHUNK_TYPE_JSON cs = [] then j0
                    else the (P (fromCharCodes (last (of_type CHUNK_TYPE_JSON cs))))) \<and>
               map_option bytes_of b =
                 (if of_type CHUNK_TYPE_BIN cs = [] then map_option bytes_of b0
                  else Some (last (of_type CHUNK_TYPE_BIN cs)))"
  using assms
proof (induction cs arbitrary: pre j0 b0)
  case Nil
  then show ?case
    by (intro exI[of _ j0] exI[of _ b0]) (simp add: read_chunks_done)
next
  case (Cons c cs)
  obtain ty p where c: "c = (ty, p)" by (cases c)
  let ?rest = "concat (map chunk_bytes cs)"
  let ?off = "length pre"
  from Cons.prems c have ty: "ty < 2 ^ 32" and p: "length p < 2 ^ 32" by auto
  have buf: "buf = pre @ le32 (length p) @ (le32 ty @ p @ ?rest)"
    using Cons.prems(2) c by (simp add: chunk_bytes_pair)
  have buf': "buf = (pre @ le32 (length p)) @ le32 ty @ (p @ ?rest)"
    using buf by simp
  have lt: "?off < length buf" using buf by simp
  have g1: "getUint32 buf ?off = Inr (length p)"
    unfolding buf using p by (rule getUint32_at)
  have "getUint32 buf (length (pre @ le32 (length p))) = Inr ty"
    unfolding buf' using ty by (rule getUint32_at)
  then have g2: "getUint32 buf (?off + 4) = Inr ty" by simp
  define v where "v = \<lparr>u8_buffer = buf, u8_byteOffset = ?off + 8, u8_byteLength = length p\<rparr>"
  have nv: "new_Uint8Array buf (?off + 8) (length p) = Inr v"
    using buf by (simp add: new_Uint8Array_def v_def)
  have bv: "bytes_of v = p"
    by (simp add: bytes_of_def v_def buf)
  obtain j' where j': "ty = CHUNK_TYPE_JSON \<Longrightarrow> P (fromCharCodes p) = Some j'"
    using Cons.prems(1) c by (cases "P (fromCharCodes p)") auto
  have step: "read_chunks P buf (length buf) ?off j0 b0 =
              read_chunks P buf (length buf) (?off + (8 + length p))
                (if ty = CHUNK_TYPE_JSON then j' else j0)
                (if ty = CHUNK_TYPE_BIN then Some v else b0)"
    using lt g1 g2 nv j' by (intro read_chunks_step) (simp_all add: bv)
  have pre': "?off + (8 + length p) = length (pre @ chunk_bytes c)"
    by (simp add: c chunk_bytes_pair)
  have buf2: "buf = (pre @ chunk_bytes c) @ concat (map chunk_bytes cs)"
    using Cons.prems(2) by simp
  from Cons.prems(1) have rest_ok:
    "\<forall>c\<in>set cs. fst c < 2 ^ 32 \<and> length (snd c) < 2 ^ 32 \<and>
       (fst c = CHUNK_TYPE_JSON \<longrightarrow> P (fromCharCodes (snd c)) \<noteq> None)" by simp
  from Cons.IH[OF rest_ok buf2, of "if ty = CHUNK_TYPE_JSON then j' else j0"
      "if ty = CHUNK_TYPE_BIN then Some v else b0"]
  obtain j b where
    r: "read_chunks P buf (length buf) (length (pre @ chunk_bytes c))
          (if ty = CHUNK_TYPE_JSON then j' else j0)
          (if ty = CHUNK_TYPE_BIN then Some v else b0) =
        (if truthy j then Inr (j, b) else Inl NoJsonChunk)"
    and jj: "j = (if of_type CHUNK_TYPE_JSON cs = [] then (if ty = CHUNK_TYPE_JSON then j' else j0)
                  else the (P (fromCharCodes (last (of_type CHUNK_TYPE_JSON cs)))))"
    and bb: "map_option bytes_of b =
               (if of_type CHUNK_TYPE_BIN cs = []
                then map_option bytes_of (if ty = CHUNK_TYPE_BIN then Some v else b0)
                else Some (last (of_type CHUNK_TYPE_BIN cs)))"
    by blast
  have "read_chunks P buf (length buf) ?off j0 b0 =
        (if truthy j then Inr (j, b) else Inl NoJsonChunk)"
    using step r pre' by simp
  moreover have "j = (if of_type CHUNK_TYPE_JSON (c # cs) = [] then j0
                      else the (P (fromCharCodes (last (of_type CHUNK_TYPE_JSON (c # cs))))))"
    using jj j' by (simp add: of_type_Cons c)
  moreover have "map_option bytes_of b =
                 (if of_type CHUNK_TYPE_BIN (c # cs) = [] then map_option bytes_of b0
                  else Some (last (of_type CHUNK_TYPE_BIN (c # cs))))"
    using bb bv by (simp add: of_type_Cons c)
  ultimately show ?case by blast
qed


lemma fromCharCodes_object: "fromCharCodes [123, 125] = ''{}''"
  by code_simp

lemma fromCharCodes_array: "fromCharCodes [91, 93] = ''[]''"
  by code_simp

lemmas glb_eval =
  parseGLB_def container_def chunk_bytes_def le32_def GLB_MAGIC_def CHUNK_TYPE_JSON_def
  CHUNK_TYPE_BIN_def getUint32_def new_Uint8Array_def bytes_of_def read_chunks.simps
  fromCharCodes_object fromCharCodes_array

subsection \<open>Truncated containers\<close>

text \<open>
  Claim C1, as the source has it. \<^verbatim>\<open>parseGLB\<close> has no \<open>TruncatedContainer\<close> error and no
  comparison of a chunk's end with the buffer or with the declared total length. What
  stops it is the runtime: when a chunk of the document or the binary type, reached by
  the loop, declares a length that extends past the end of the buffer, the
  \<^verbatim>\<open>Uint8Array\<close> constructor raises \<open>RangeError\<close> and \<^verbatim>\<open>parseGLB\<close> fails with it (unless
  \<^verbatim>\<open>JSON.parse\<close> has already rejected an earlier document chunk). No read leaves the
  buffer: every read of the model is one of the checked reads \<open>getUint32\<close> and
  \<open>new_Uint8Array\<close>.
\<close>

theorem parseGLB_oversize_chunk_fails:
  assumes "getUint32 buf 0 = Inr GLB_MAGIC"
    and "getUint32 buf 4 = Inr 2"
    and "getUint32 buf 8 = Inr tot"
    and "(off, len, ty) \<in> set (visited_chunks buf tot 12)"
    and "ty = CHUNK_TYPE_JSON \<or> ty = CHUNK_TYPE_BIN"
    and "length buf < off + 8 + len"
  shows "parseGLB P buf = Inl RangeError \<or> parseGLB P buf = Inl SyntaxError"
proof -
  have "parseGLB P buf = read_chunks P buf tot 12 JNull None"
    using assms(1-3) by (simp add: parseGLB_def)
  with read_chunks_oversize[OF assms(4-6)] show ?thesis by simp
qed

theorem parseGLB_oversize_chunk_fails_witness:
  "getUint32 (le32 GLB_MAGIC @ le32 2 @ le32 30 @ le32 2 @ le32 CHUNK_TYPE_JSON @ [123, 125] @
              le32 1000 @ le32 CHUNK_TYPE_BIN) 0 = Inr GLB_MAGIC \<and>
   (22, 1000, CHUNK_TYPE_BIN) \<in> set (visited_chunks
      (le32 GLB_MAGIC @ le32 2 @ le32 30 @ le32 2 @ le32 CHUNK_TYPE_JSON @ [123, 125] @
       le32 1000 @ le32 CHUNK_TYPE_BIN) 30 12) \<and>
   parseGLB [''{}'' \<mapsto> JObj []]
     (le32 GLB_MAGIC @ le32 2 @ le32 30 @ le32 2 @ le32 CHUNK_TYPE_JSON @ [123, 125] @
      le32 1000 @ le32 CHUNK_TYPE_BIN) = Inl RangeError"
proof -
  let ?buf = "le32 GLB_MAGIC @ le32 2 @ le32 30 @ le32 2 @ le32 CHUNK_TYPE_JSON @ [123, 125] @
              le32 1000 @ le32 CHUNK_TYPE_BIN"
  let ?P = "[''{}'' \<mapsto> JObj []]"
  have h1: "getUint32 ?buf 0 = Inr GLB_MAGIC"
    by (simp add: glb_eval)
  have h2: "getUint32 ?buf 4 = Inr 2"
    by (simp add: glb_eval)
  have h3: "getUint32 ?buf 8 = Inr 30"
    by (simp add: glb_eval)
  have h4: "(22, 1000, CHUNK_TYPE_BIN) \<in> set (visited_chunks ?buf 30 12)"
    by (simp add: glb_eval visited_chunks.simps)
  have h5: "CHUNK_TYPE_BIN = CHUNK_TYPE_JSON \<or> CHUNK_TYPE_BIN = CHUNK_TYPE_BIN"
    by simp
  have h6: "length ?buf < 22 + 8 + 1000"
    by (simp add: le32_def)
  have "parseGLB ?P ?buf \<noteq> Inl SyntaxError"
    by (simp add: glb_eval)
  with parseGLB_oversize_chunk_fails[OF h1 h2 h3 h4 h5 h6, of ?P] h1 h4
  show ?thesis by blast
qed

text \<open>
  Claim C1 as stated fails: a chunk of an unknown type is skipped by its declared length
  without any check. Here a 30-byte container holds a document chunk \<^verbatim>\<open>{}\<close> and then a
  chunk of type 0 that declares 1000 bytes, far past the end of the buffer and the
  declared total length; \<^verbatim>\<open>parseGLB\<close> succeeds.
\<close>

theorem parseGLB_truncation_counterexample:
  "parseGLB [''{}'' \<mapsto> JObj []]
     (le32 GLB_MAGIC @ le32 2 @ le32 30 @ le32 2 @ le32 CHUNK_TYPE_JSON @ [123, 125] @
      le32 1000 @ le32 0) = Inr (JObj [], None)"
  by (simp add: glb_eval)

subsection \<open>Several chunks of one type\<close>

text \<open>
  Claim C4, as the source has it: the loop assigns \<^verbatim>\<open>jsonChunk\<close> and \<^verbatim>\<open>binaryChunk\<close> at
  every chunk of the type, so the last chunk of each recognised type wins. For every
  well-formed container whose document chunks all parse, \<^verbatim>\<open>parseGLB\<close> returns the parse of
  the last document chunk and a view showing the payload of the last binary chunk (none
  if there is no binary chunk); chunks of other types are skipped by their declared
  length.
\<close>

theorem parseGLB_last_chunk_wins:
  assumes "\<forall>c\<in>set cs. fst c < 2 ^ 32 \<and> length (snd c) < 2 ^ 32 \<and>
             (fst c = CHUNK_TYPE_JSON \<longrightarrow> P (fromCharCodes (snd c)) \<noteq> None)"
    and "12 + length (concat (map chunk_bytes cs)) < 2 ^ 32"
    and "of_type CHUNK_TYPE_JSON cs \<noteq> []"
    and "P (fromCharCodes (last (of_type CHUNK_TYPE_JSON cs))) = Some j"
    and "truthy j"
  shows "\<exists>b. parseGLB P (container cs) = Inr (j, b) \<and>
             map_option bytes_of b =
               (if of_type CHUNK_TYPE_BIN cs = [] then None
                else Some (last (of_type CHUNK_TYPE_BIN cs)))"
proof -
  let ?body = "concat (map chunk_bytes cs)"
  let ?tot = "12 + length ?body"
  let ?pre = "le32 GLB_MAGIC @ le32 2 @ le32 ?tot"
  have c: "container cs = ?pre @ ?body"
    by (simp add: container_def)
  have m: "getUint32 (container cs) 0 = Inr GLB_MAGIC"
    using getUint32_at[of GLB_MAGIC "[]"] by (simp add: container_def GLB_MAGIC_def)
  have "getUint32 (container cs) (length (le32 GLB_MAGIC)) = Inr 2"
    unfolding container_def by (rule getUint32_at) simp
  then have v: "getUint32 (container cs) 4 = Inr 2" by simp
  have "getUint32 (container cs) (length (le32 GLB_MAGIC @ le32 2)) = Inr ?tot"
    using getUint32_at[OF assms(2), of "le32 GLB_MAGIC @ le32 2"] by (simp add: container_def)
  then have t: "getUint32 (container cs) 8 = Inr ?tot" by simp
  have len: "length (container cs) = ?tot" and lp: "length ?pre = 12"
    by (simp_all add: container_def)
  have p: "parseGLB P (container cs) =
           read_chunks P (container cs) (length (container cs)) (length ?pre) JNull None"
    using m v t by (simp add: parseGLB_def len GLB_MAGIC_def)
  from read_chunks_container[OF assms(1) c, of JNull None] assms(3,4,5) p
  show ?thesis by auto
qed

theorem parseGLB_last_chunk_wins_witness:
  "of_type CHUNK_TYPE_JSON
     [(CHUNK_TYPE_JSON, [123, 125]), (CHUNK_TYPE_BIN, [1]), (7, [9, 9]), (CHUNK_TYPE_BIN, [2, 3])] \<noteq> [] \<and>
   (\<exists>b. parseGLB [''{}'' \<mapsto> JObj []]
          (container [(CHUNK_TYPE_JSON, [123, 125]), (CHUNK_TYPE_BIN, [1]), (7, [9, 9]),
                      (CHUNK_TYPE_BIN, [2, 3])]) = Inr (JObj [], b) \<and>
        map_option bytes_of b = Some [2, 3])"
proof -
  let ?cs = "[(CHUNK_TYPE_JSON, [123, 125]), (CHUNK_TYPE_BIN, [1::byte]), (7, [9, 9]),
              (CHUNK_TYPE_BIN, [2, 3])]"
  let ?P = "[''{}'' \<mapsto> JObj []]"
  have h1: "\<forall>c\<in>set ?cs. fst c < 2 ^ 32 \<and> length (snd c) < 2 ^ 32 \<and>
             (fst c = CHUNK_TYPE_JSON \<longrightarrow> ?P (fromCharCodes (snd c)) \<noteq> None)"
    by (simp add: CHUNK_TYPE_JSON_def CHUNK_TYPE_BIN_def fromCharCodes_object)
  have h2: "12 + length (concat (map chunk_bytes ?cs)) < 2 ^ 32"
    by (simp add: chunk_bytes_def)
  have h3: "of_type CHUNK_TYPE_JSON ?cs \<noteq> []"
    by (simp add: of_type_def)
  have h4: "?P (fromCharCodes (last (of_type CHUNK_TYPE_JSON ?cs))) = Some (JObj [])"
    by (simp add: of_type_def CHUNK_TYPE_JSON_def CHUNK_TYPE_BIN_def fromCharCodes_object)
  have h5: "truthy (JObj [])" by simp
  have e: "of_type CHUNK_TYPE_BIN ?cs \<noteq> []" "last (of_type CHUNK_TYPE_BIN ?cs) = [2, 3]"
    by (simp_all add: of_type_def CHUNK_TYPE_JSON_def CHUNK_TYPE_BIN_def)
  from parseGLB_last_chunk_wins[OF h1 h2 h3 h4 h5] obtain b where
    r: "parseGLB ?P (container ?cs) = Inr (JObj [], b)" and
    m: "map_option bytes_of b =
          (if of_type CHUNK_TYPE_BIN ?cs = [] then None
           else Some (last (of_type CHUNK_TYPE_BIN ?cs)))"
    by blast
  from m e have "map_option bytes_of b = Some [2, 3]" by simp
  with r h3 show ?thesis by blast
qed

text \<open>
  Claim C4 as stated (first wins) fails: with two document chunks \<^verbatim>\<open>{}\<close>, \<^verbatim>\<open>[]\<close> and two
  binary chunks \<open>[1]\<close>, \<open>[2]\<close>, the result is the second of each.
\<close>

theorem parseGLB_first_wins_counterexample:
  "parseGLB [''{}'' \<mapsto> JObj [], ''[]'' \<mapsto> JArr []]
     (container [(CHUNK_TYPE_JSON, [123, 125]), (CHUNK_TYPE_BIN, [1]),
                 (CHUNK_TYPE_JSON, [91, 93]), (CHUNK_TYPE_BIN, [2])]) =
   Inr (JArr [],
        Some \<lparr>u8_buffer = container [(CHUNK_TYPE_JSON, [123, 125]), (CHUNK_TYPE_BIN, [1]),
                                  (CHUNK_TYPE_JSON, [91, 93]), (CHUNK_TYPE_BIN, [2])],
              u8_byteOffset = 49, u8_byteLength = 1\<rparr>)"
  by (simp add: glb_eval)

subsection \<open>The binary chunk lies within the buffer\<close>

lemma read_chunks_view_ok:
  "read_chunks P buf tot off j b = Inr (j', b') \<Longrightarrow>
   (\<And>v. b = Some v \<Longrightarrow> view_ok v \<and> u8_buffer v = buf) \<Longrightarrow>
   b' = Some v' \<Longrightarrow> view_ok v' \<and> u8_buffer v' = buf"
proof (induction P buf tot off j b rule: read_chunks.induct)
  case (1 P buf tot off j b)
  note rs = read_chunks.simps[of P buf tot off j b]
  show ?case
  proof (cases "off < tot")
    case False
    with "1.prems" show ?thesis by (auto simp add: rs split: if_splits)
  next
    case True
    from "1.prems"(1) True obtain cl where cl: "getUint32 buf off = Inr cl"
      by (cases "getUint32 buf off") (simp_all add: rs)
    from "1.prems"(1) True cl obtain ct where ct: "getUint32 buf (off + 4) = Inr ct"
      by (cases "getUint32 buf (off + 4)") (simp_all add: rs)
    show ?thesis
    proof (cases "ct = CHUNK_TYPE_JSON")
      case json: True
      from "1.prems"(1) True cl ct json obtain jb where
        jb: "new_Uint8Array buf (off + 8) cl = Inr jb"
        by (cases "new_Uint8Array buf (off + 8) cl") (simp_all add: rs)
      from "1.prems"(1) True cl ct json jb obtain x where
        x: "P (fromCharCodes (bytes_of jb)) = Some x"
        by (cases "P (fromCharCodes (bytes_of jb))") (simp_all add: rs)
      from "1.prems"(1) True cl ct json jb x
      have "read_chunks P buf tot (off + (8 + cl)) x b = Inr (j', b')"
        by (simp add: rs)
      from "1.IH"(1)[OF True cl ct json jb x this "1.prems"(2,3)] show ?thesis by simp
    next
      case nojson: False
      show ?thesis
      proof (cases "ct = CHUNK_TYPE_BIN")
        case bin: True
        from "1.prems"(1) True cl ct nojson bin obtain bv where
          bv: "new_Uint8Array buf (off + 8) cl = Inr bv"
          by (cases "new_Uint8Array buf (off + 8) cl") (simp_all add: rs)
        then have ok: "view_ok bv \<and> u8_buffer bv = buf"
          by (auto simp add: new_Uint8Array_def view_ok_def split: if_splits)
        from "1.prems"(1) True cl ct nojson bin bv
        have "read_chunks P buf tot (off + (8 + cl)) j (Some bv) = Inr (j', b')"
          by (simp add: rs)
        from "1.IH"(2)[OF True cl ct nojson bin bv this _ "1.prems"(3)] ok
        show ?thesis by simp
      next
        case False
        from "1.prems"(1) True cl ct nojson False
        have "read_chunks P buf tot (off + (8 + cl)) j b = Inr (j', b')"
          by (simp add: rs)
        from "1.IH"(3)[OF True cl ct nojson False this "1.prems"(2,3)] show ?thesis by simp
      qed
    qed
  qed
qed

text \<open>Every binary chunk that \<^verbatim>\<open>parseGLB\<close> returns is a view within the buffer it was
  given.\<close>

lemma parseGLB_view_ok:
  assumes "parseGLB P buf = Inr (j, Some v)"
  shows "view_ok v \<and> u8_buffer v = buf"
proof -
  from assms obtain tot where "read_chunks P buf tot 12 JNull None = Inr (j, Some v)"
    by (auto simp add: parseGLB_def split: sum.splits if_splits)
  from read_chunks_view_ok[OF this] show ?thesis by simp
qed

section \<open>Properties of accessor resolution\<close>

subsection \<open>Auxiliary facts\<close>

lemma length_bytes_of: "view_ok v \<Longrightarrow> length (bytes_of v) = u8_byteLength v"
  by (simp add: view_ok_def bytes_of_def)

lemma length_u8_slice:
  "view_ok v \<Longrightarrow>
   length (u8_slice v start stop) = min stop (u8_byteLength v) - min start (u8_byteLength v)"
  by (simp add: u8_slice_def Let_def length_bytes_of)

lemma take_drop_take: "a + b \<le> c \<Longrightarrow> take a (drop b (take c xs)) = take a (drop b xs)"
  by (simp add: drop_take min_def)

lemma COMPONENT_TYPES_size:
  "COMPONENT_TYPES ct = Some (T, sz) \<Longrightarrow> sz = BYTES_PER_ELEMENT T \<and> 0 < sz"
  by (auto simp add: COMPONENT_TYPES_def split: if_splits)

lemma TYPE_SIZES_pos: "TYPE_SIZES t = Some n \<Longrightarrow> 0 < n"
  by (auto simp add: TYPE_SIZES_def split: if_splits)

lemma accessor_info_Inr:
  assumes "accessor_info g i = Inr (acc, (T, sz), n, bo, st)"
  shows "COMPONENT_TYPES (a_componentType acc) = Some (T, sz)"
    and "TYPE_SIZES (a_type acc) = Some n"
    and "sz = BYTES_PER_ELEMENT T" and "0 < sz" and "0 < n"
proof -
  from assms show c: "COMPONENT_TYPES (a_componentType acc) = Some (T, sz)"
    by (auto simp add: accessor_info_def Let_def split: option.splits)
  from assms show t: "TYPE_SIZES (a_type acc) = Some n"
    by (auto simp add: accessor_info_def Let_def split: option.splits)
  from c show "sz = BYTES_PER_ELEMENT T" and "0 < sz"
    by (simp_all add: COMPONENT_TYPES_size)
  from t show "0 < n" by (rule TYPE_SIZES_pos)
qed

text \<open>The copy of the tightly-packed path of ARViewScreen.js, for a region inside the
  binary chunk: the elements are those of the chunk's bytes, whatever the alignment.\<close>

lemma AR_tight_in_bounds:
  assumes info: "accessor_info g i = Inr (acc, (T, sz), n, bo, st)"
    and tight: "st = 0 \<or> st = sz * n"
    and ok: "view_ok v"
    and fits: "bo + a_count acc * n * sz \<le> u8_byteLength v"
  shows "AR_readAccessor g v i =
         ([], Inr (TypedArray T
            (map (\<lambda>k. element_of T (take sz (drop (u8_byteOffset v + bo + k * sz) (u8_buffer v))))
                 [0..<a_count acc * n])))"
proof -
  let ?te = "a_count acc * n" and ?L = "u8_byteLength v"
  let ?tb = "?te * sz"
  let ?slice = "u8_slice v bo (min (bo + ?tb) ?L)"
  note sz = accessor_info_Inr(3)[OF info]
  have slice: "?slice = take ?tb (drop bo (bytes_of v))"
    using fits by (simp add: u8_slice_def Let_def min_def)
  have len: "length ?slice = ?tb"
    using fits ok by (simp add: length_u8_slice)
  have el: "take sz (drop (0 + k * sz) ?slice) =
            take sz (drop (u8_byteOffset v + bo + k * sz) (u8_buffer v))" if "k < ?te" for k
  proof -
    from that have "Suc k * sz \<le> ?te * sz"
      by (intro mult_le_mono1) simp
    then have k: "sz + k * sz \<le> ?tb" by simp
    have "take sz (drop (k * sz) ?slice) = take sz (drop (k * sz) (drop bo (bytes_of v)))"
      unfolding slice using k by (rule take_drop_take)
    also have "\<dots> = take sz (drop (k * sz + bo) (take ?L (drop (u8_byteOffset v) (u8_buffer v))))"
      by (simp add: bytes_of_def)
    also have "\<dots> = take sz (drop (k * sz + bo) (drop (u8_byteOffset v) (u8_buffer v)))"
      using k fits by (intro take_drop_take) simp
    finally show ?thesis by (simp add: add.commute add.left_commute)
  qed
  have "new_TypedArray T ?slice 0 ?te =
        Inr (TypedArray T
          (map (\<lambda>k. element_of T (take sz (drop (u8_byteOffset v + bo + k * sz) (u8_buffer v))))
               [0..<?te]))"
    using len el by (simp add: new_TypedArray_def Let_def sz[symmetric])
  then show ?thesis
    using info tight fits by (simp add: AR_readAccessor_def Let_def)
qed

subsection \<open>Reads past the end of the binary chunk\<close>

text \<open>
  Claim C2 against ARViewScreen.js, tightly-packed path. The source warns
  \<^verbatim>\<open>... Clamping.\<close>, clamps \<^verbatim>\<open>srcEnd\<close> to the chunk and copies the shorter slice, but then
  constructs the typed array with the full \<^verbatim>\<open>totalElements\<close> on the slice's buffer: the
  constructor raises \<open>RangeError\<close>. So for every tightly-packed accessor with at least one
  element whose region exceeds the binary chunk (a view within its buffer, as \<^verbatim>\<open>parseGLB\<close>
  returns it), \<^verbatim>\<open>readAccessor\<close> warns and throws; no zero-filled array is returned.
\<close>

theorem AR_readAccessor_tight_overflow_throws:
  assumes info: "accessor_info g i = Inr (acc, (T, sz), n, bo, st)"
    and tight: "st = 0 \<or> st = sz * n"
    and ok: "view_ok v"
    and over: "u8_byteLength v < bo + a_count acc * n * sz"
    and pos: "0 < a_count acc"
  shows "AR_readAccessor g v i =
         ([Overflow i bo (a_count acc * n * sz) (u8_byteLength v)], Inl RangeError)"
proof -
  let ?te = "a_count acc * n" and ?L = "u8_byteLength v"
  let ?tb = "?te * sz"
  let ?slice = "u8_slice v bo (min (bo + ?tb) ?L)"
  note sz = accessor_info_Inr(3,4,5)[OF info]
  have tb: "0 < ?tb" using pos sz by simp
  have m: "min (bo + ?tb) ?L = ?L" using over by simp
  have "length ?slice = ?L - min bo ?L"
    using ok by (simp add: length_u8_slice m)
  also have "\<dots> < ?tb"
  proof (cases "bo \<le> ?L")
    case True
    then show ?thesis using over by (simp add: min_def)
  next
    case False
    then show ?thesis using tb by (simp add: min_def)
  qed
  finally have "length ?slice < ?tb" .
  then have "new_TypedArray T ?slice 0 ?te = Inl RangeError"
    by (simp add: new_TypedArray_def Let_def sz(1)[symmetric])
  then show ?thesis
    using info tight over by (simp add: AR_readAccessor_def Let_def)
qed

lemma accessor_info_one_accessor:
  "COMPONENT_TYPES ct = Some (T, sz) \<Longrightarrow> TYPE_SIZES ty = Some n \<Longrightarrow>
   accessor_info (one_accessor ct ty cnt off stride) 0 =
   Inr (\<lparr>a_bufferView = Some 0, a_componentType = ct, a_type = ty, a_count = cnt,
          a_byteOffset = off\<rparr>, (T, sz), n, or0 off, or0 stride)"
  by (simp add: accessor_info_def one_accessor_def js_nth_def)

lemma view_ok_whole: "view_ok (whole buf)"
  by (simp add: view_ok_def whole_def)

theorem AR_readAccessor_tight_overflow_throws_witness:
  "AR_readAccessor (one_accessor 5126 ''VEC3'' 1 None None) (whole [0, 0, 0, 0, 0, 0, 0, 0]) 0 =
   ([Overflow 0 0 12 8], Inl RangeError)"
proof -
  have info: "accessor_info (one_accessor 5126 ''VEC3'' 1 None None) 0 =
        Inr (\<lparr>a_bufferView = Some 0, a_componentType = 5126, a_type = ''VEC3'', a_count = 1,
               a_byteOffset = None\<rparr>, (Float32Array, 4), 3, 0, 0)"
    using accessor_info_one_accessor[of 5126 Float32Array 4 "''VEC3''" 3 1 None None]
    by (simp add: COMPONENT_TYPES_def TYPE_SIZES_def)
  show ?thesis
    using AR_readAccessor_tight_overflow_throws[OF info _ view_ok_whole,
        of "[0, 0, 0, 0, 0, 0, 0, 0]"]
    by (simp add: whole_def)
qed

subsection \<open>Copy or view on the tightly-packed path\<close>

text \<open>The fast path of ModelViewerScreen.js is the typed-array constructor on the chunk's
  underlying buffer at the absolute offset.\<close>

lemma MV_tight:
  assumes "accessor_info g i = Inr (acc, (T, sz), n, bo, st)" and "st = 0 \<or> st = sz * n"
  shows "MV_readAccessor g v i =
         new_TypedArray T (u8_buffer v) (u8_byteOffset v + bo) (a_count acc * n)"
  using assms by (simp add: MV_readAccessor_def Let_def)

text \<open>
  Claim C3 against ModelViewerScreen.js. Its fast path does not copy: it reinterprets the
  source bytes in place, a view at the absolute offset. The difference shows as soon as
  that offset is not a multiple of the component size: the view cannot be created and
  \<^verbatim>\<open>readAccessor\<close> throws \<open>RangeError\<close>, where the copy of ARViewScreen.js returns the
  elements.
\<close>

theorem MV_readAccessor_views_in_place:
  assumes info: "accessor_info g i = Inr (acc, (T, sz), n, bo, st)"
    and tight: "st = 0 \<or> st = sz * n"
    and ok: "view_ok v"
    and fits: "bo + a_count acc * n * sz \<le> u8_byteLength v"
    and misaligned: "(u8_byteOffset v + bo) mod sz \<noteq> 0"
  shows "MV_readAccessor g v i = Inl RangeError \<and>
         AR_readAccessor g v i =
         ([], Inr (TypedArray T
            (map (\<lambda>k. element_of T (take sz (drop (u8_byteOffset v + bo + k * sz) (u8_buffer v))))
                 [0..<a_count acc * n])))"
proof -
  have "new_TypedArray T (u8_buffer v) (u8_byteOffset v + bo) (a_count acc * n) = Inl RangeError"
    using misaligned accessor_info_Inr(3)[OF info] by (simp add: new_TypedArray_def Let_def)
  then have "MV_readAccessor g v i = Inl RangeError"
    by (simp add: MV_tight[OF info tight])
  with AR_tight_in_bounds[OF info tight ok fits] show ?thesis by simp
qed

theorem MV_readAccessor_views_in_place_witness:
  "MV_readAccessor (one_accessor 5126 ''SCALAR'' 1 (Some 1) None) (whole [0, 1, 0, 0, 0, 9]) 0 =
     Inl RangeError \<and>
   AR_readAccessor (one_accessor 5126 ''SCALAR'' 1 (Some 1) None) (whole [0, 1, 0, 0, 0, 9]) 0 =
     ([], Inr (TypedArray Float32Array [1]))"
proof -
  have info: "accessor_info (one_accessor 5126 ''SCALAR'' 1 (Some 1) None) 0 =
        Inr (\<lparr>a_bufferView = Some 0, a_componentType = 5126, a_type = ''SCALAR'', a_count = 1,
               a_byteOffset = Some 1\<rparr>, (Float32Array, 4), 1, 1, 0)"
    using accessor_info_one_accessor[of 5126 Float32Array 4 "''SCALAR''" 1 1 "Some 1" None]
    by (simp add: COMPONENT_TYPES_def TYPE_SIZES_def)
  show ?thesis
    using MV_readAccessor_views_in_place[OF info _ view_ok_whole, of "[0, 1, 0, 0, 0, 9]"]
    by (simp add: whole_def)
qed

subsection \<open>The two copies of readAccessor\<close>

text \<open>On supported, tightly-packed data whose read region lies within the binary chunk
  and whose absolute offset is a multiple of the component size, the two copies of
  \<^verbatim>\<open>readAccessor\<close> return the same array.\<close>

lemma readAccessor_screens_agree_aligned:
  assumes info: "accessor_info g i = Inr (acc, (T, sz), n, bo, st)"
    and tight: "st = 0 \<or> st = sz * n"
    and ok: "view_ok v"
    and fits: "bo + a_count acc * n * sz \<le> u8_byteLength v"
    and aligned: "(u8_byteOffset v + bo) mod sz = 0"
  shows "\<exists>arr. readAccessor ModelViewerScreen g v i = Inr arr \<and>
               readAccessor ARViewScreen g v i = Inr arr"
proof -
  let ?arr = "TypedArray T
     (map (\<lambda>k. element_of T (take sz (drop (u8_byteOffset v + bo + k * sz) (u8_buffer v))))
          [0..<a_count acc * n])"
  have "u8_byteOffset v + bo + a_count acc * n * sz \<le> length (u8_buffer v)"
    using ok fits by (simp add: view_ok_def)
  then have "new_TypedArray T (u8_buffer v) (u8_byteOffset v + bo) (a_count acc * n) = Inr ?arr"
    using aligned accessor_info_Inr(3)[OF info] by (simp add: new_TypedArray_def Let_def)
  then have "readAccessor ModelViewerScreen g v i = Inr ?arr"
    by (simp add: readAccessor_def MV_tight[OF info tight])
  moreover have "readAccessor ARViewScreen g v i = Inr ?arr"
    by (simp add: readAccessor_def AR_tight_in_bounds[OF info tight ok fits])
  ultimately show ?thesis by blast
qed

text \<open>
  Claim C10 against the code. The two copies of \<^verbatim>\<open>readAccessor\<close> do not agree on all
  supported, tightly-packed data within the binary chunk: for one unsigned 16-bit scalar
  at byte offset 1 of a three-byte chunk, ModelViewerScreen.js throws \<open>RangeError\<close>
  (its in-place view cannot start at an odd offset) and ARViewScreen.js returns the
  element 513.
\<close>

theorem readAccessor_screens_differ:
  "readAccessor ModelViewerScreen (one_accessor 5123 ''SCALAR'' 1 (Some 1) None)
     (whole [0, 1, 2]) 0 = Inl RangeError \<and>
   readAccessor ARViewScreen (one_accessor 5123 ''SCALAR'' 1 (Some 1) None)
     (whole [0, 1, 2]) 0 = Inr (TypedArray Uint16Array [513])"
  by (simp add: readAccessor_def MV_readAccessor_def AR_readAccessor_def accessor_info_def
      one_accessor_def whole_def js_nth_def COMPONENT_TYPES_def TYPE_SIZES_def
      new_TypedArray_def u8_slice_def bytes_of_def Let_def)

subsection \<open>The interleaved path of ARViewScreen.js\<close>

text \<open>
  The element-by-element path of ARViewScreen.js does what its fast path misses: it never
  throws, and it returns an array of the full declared length, zero where a component did
  not fit in the binary chunk.
\<close>

lemma read_component_supported:
  "COMPONENT_TYPES ct = Some (T, sz) \<Longrightarrow> read_component ct dv off = Some (dv_get T dv off)"
  by (auto simp add: COMPONENT_TYPES_def read_component_def split: if_splits)

lemma AR_components_returns:
  assumes "COMPONENT_TYPES ct = Some (T, sz)"
  shows "\<exists>w r. AR_components ct dv (length dv) sz n eo i js (ws, res) = (ws @ w, Inr r) \<and>
               length r = length res"
proof (induction js arbitrary: ws res)
  case Nil
  show ?case by simp
next
  case (Cons j js)
  note sz = COMPONENT_TYPES_size[OF assms]
  show ?case
  proof (cases "eo + j * sz + sz > length dv")
    case True
    then show ?thesis by (simp add: Let_def)
  next
    case False
    then obtain x where "dv_get T dv (eo + j * sz) = Inr x"
      using sz by (simp add: dv_get_def)
    with False Cons.IH[of ws "res[i * n + j := x]"] show ?thesis
      by (simp add: Let_def read_component_supported[OF assms])
  qed
qed

lemma AR_elements_returns:
  assumes "COMPONENT_TYPES ct = Some (T, sz)"
  shows "\<exists>w r. AR_elements ct dv (length dv) sz n bo st idx (ws, res) = (ws @ w, Inr r) \<and>
               length r = length res"
proof (induction idx arbitrary: ws res)
  case Nil
  show ?case by simp
next
  case (Cons i idx)
  from AR_components_returns[OF assms, of dv n "bo + i * st" i "[0..<n]" ws res]
  obtain w r where
    c: "AR_components ct dv (length dv) sz n (bo + i * st) i [0..<n] (ws, res) = (ws @ w, Inr r)"
    and l: "length r = length res" by blast
  from Cons.IH[of "ws @ w" r] obtain w' r' where
    "AR_elements ct dv (length dv) sz n bo st idx (ws @ w, r) = ((ws @ w) @ w', Inr r')"
    and "length r' = length r" by blast
  with c l show ?case by (simp add: Let_def)
qed

lemma AR_interleaved_returns:
  assumes info: "accessor_info g i = Inr (acc, (T, sz), n, bo, st)"
    and inter: "st \<noteq> 0" "st \<noteq> sz * n"
    and ok: "view_ok v"
  shows "\<exists>w xs. AR_readAccessor g v i = (w, Inr (TypedArray T xs)) \<and>
                length xs = a_count acc * n \<and>
                (u8_byteLength v < bo + a_count acc * n * sz \<longrightarrow>
                   Overflow i bo (a_count acc * n * sz) (u8_byteLength v) \<in> set w)"
proof -
  let ?ws = "if bo + a_count acc * n * sz > u8_byteLength v
             then [Overflow i bo (a_count acc * n * sz) (u8_byteLength v)] else []"
  let ?dv = "take (u8_byteLength v) (drop (u8_byteOffset v) (u8_buffer v))"
  have dv: "new_DataView (u8_buffer v) (u8_byteOffset v) (Some (u8_byteLength v)) = Inr ?dv"
    and len: "length ?dv = u8_byteLength v"
    using ok by (simp_all add: new_DataView_def view_ok_def)
  have "\<exists>w r. AR_elements (a_componentType acc) ?dv (length ?dv) sz n bo st [0..<a_count acc]
                 (?ws, replicate (a_count acc * n) 0) = (?ws @ w, Inr r) \<and>
               length r = length (replicate (a_count acc * n) (0::int))"
    by (rule AR_elements_returns[OF accessor_info_Inr(1)[OF info]])
  then obtain w r where
    e0: "AR_elements (a_componentType acc) ?dv (length ?dv) sz n bo st [0..<a_count acc]
          (?ws, replicate (a_count acc * n) 0) = (?ws @ w, Inr r)"
    and l0: "length r = length (replicate (a_count acc * n) (0::int))"
    by blast
  from e0 have
    e: "AR_elements (a_componentType acc) ?dv (u8_byteLength v) sz n bo st [0..<a_count acc]
          (?ws, replicate (a_count acc * n) 0) = (?ws @ w, Inr r)"
    by (simp only: len)
  from l0 have l: "length r = a_count acc * n" by simp
  have "AR_readAccessor g v i = (?ws @ w, Inr (TypedArray T r))"
    using info inter dv e by (simp add: AR_readAccessor_def Let_def)
  with l show ?thesis by auto
qed

section \<open>Properties of scene composition\<close>

subsection \<open>Auxiliary facts\<close>

lemma new_TypedArray_kind: "new_TypedArray T buf off len = Inr arr \<Longrightarrow> array_kind arr = T"
  by (auto simp add: new_TypedArray_def Let_def split: if_splits)

lemma MV_readAccessor_Inr:
  assumes "MV_readAccessor g v a = Inr arr"
  shows "\<exists>acc T sz n bo st. accessor_info g a = Inr (acc, (T, sz), n, bo, st) \<and> array_kind arr = T"
  using assms
  by (auto simp add: MV_readAccessor_def Let_def
      split: sum.splits prod.splits if_splits dest: new_TypedArray_kind)

lemma AR_readAccessor_Inr:
  assumes "snd (AR_readAccessor g v a) = Inr arr"
  shows "\<exists>acc T sz n bo st. accessor_info g a = Inr (acc, (T, sz), n, bo, st) \<and> array_kind arr = T"
  using assms
  by (auto simp add: AR_readAccessor_def Let_def
      split: sum.splits prod.splits if_splits dest: new_TypedArray_kind)

lemma readAccessor_Inr:
  assumes "readAccessor scr g v a = Inr arr"
  shows "\<exists>acc T sz n bo st. accessor_info g a = Inr (acc, (T, sz), n, bo, st) \<and> array_kind arr = T"
  using assms MV_readAccessor_Inr AR_readAccessor_Inr
  by (cases scr) (simp_all add: readAccessor_def)

lemma accessor_info_accessor:
  assumes "accessor_info g a = Inr (acc, (T, sz), n, bo, st)"
  shows "\<exists>accs. accessors g = Some accs \<and> js_nth accs a = Some acc"
  using assms by (auto simp add: accessor_info_def Let_def split: option.splits)

lemma accessor_info_unsupported:
  assumes "accessors g = Some accs" and "js_nth accs a = Some acc"
    and "COMPONENT_TYPES (a_componentType acc) = None"
  shows "accessor_info g a = Inl TypeError \<or>
         accessor_info g a = Inl (UnsupportedComponentType (a_componentType acc))"
  using assms by (auto simp add: accessor_info_def Let_def split: option.splits)

lemma readAccessor_unsupported:
  assumes "accessors g = Some accs" and "js_nth accs a = Some acc"
    and "COMPONENT_TYPES (a_componentType acc) = None"
  shows "\<exists>e. readAccessor scr g v a = Inl e"
proof (cases "readAccessor scr g v a")
  case (Inl e)
  then show ?thesis by blast
next
  case (Inr arr)
  from readAccessor_Inr[OF Inr] obtain acc' T sz n bo st where
    i: "accessor_info g a = Inr (acc', (T, sz), n, bo, st)" by blast
  from accessor_info_accessor[OF i] assms(1,2) have "acc' = acc" by auto
  with accessor_info_Inr(1)[OF i] assms(3) show ?thesis by simp
qed

lemma optional_attribute_unsupported:
  assumes "accessors g = Some accs" and "js_nth accs a = Some acc"
    and "COMPONENT_TYPES (a_componentType acc) = None"
  shows "\<exists>e. optional_attribute scr g v (Some a) = Inl e"
  using readAccessor_unsupported[OF assms, of scr v]
  by (auto simp add: optional_attribute_def)

lemma color_attribute_unsupported:
  assumes "accessors g = Some accs" and "js_nth accs a = Some acc"
    and "COMPONENT_TYPES (a_componentType acc) = None"
  shows "\<exists>e. color_attribute scr g v (Some a) = Inl e"
  using readAccessor_unsupported[OF assms, of scr v]
  by (auto simp add: color_attribute_def)

lemma index_attribute_unsupported:
  assumes "accessors g = Some accs" and "js_nth accs a = Some acc"
    and "COMPONENT_TYPES (a_componentType acc) = None"
  shows "\<exists>e. index_attribute scr g v (Some a) = Inl e"
  using readAccessor_unsupported[OF assms, of scr v]
  by (auto simp add: index_attribute_def)

lemma buildPrimitive_unsupported:
  assumes acc: "accessors g = Some accs" "js_nth accs a = Some acc"
    and un: "COMPONENT_TYPES (a_componentType acc) = None"
    and attr: "Some a \<in> {POSITION p, NORMAL p, TEXCOORD_0 p, COLOR_0 p, p_indices p}"
    and pos: "POSITION p \<noteq> None"
  shows "\<exists>e. buildPrimitive scr g bin p = Inl e"
proof (cases bin)
  case None
  then show ?thesis by (simp add: buildPrimitive_def)
next
  case (Some v)
  from pos obtain q where q: "POSITION p = Some q" by blast
  note r = readAccessor_unsupported[OF acc un, of scr v]
  note o = optional_attribute_unsupported[OF acc un, of scr v]
  note c = color_attribute_unsupported[OF acc un, of scr v]
  note i = index_attribute_unsupported[OF acc un, of scr v]
  from attr consider "POSITION p = Some a" | "NORMAL p = Some a" | "TEXCOORD_0 p = Some a"
    | "COLOR_0 p = Some a" | "p_indices p = Some a" by auto
  then show ?thesis
  proof cases
    case 1
    with r Some show ?thesis by (auto simp add: buildPrimitive_def)
  next
    case 2
    with o Some q show ?thesis by (auto simp add: buildPrimitive_def split: sum.splits)
  next
    case 3
    with o Some q show ?thesis by (auto simp add: buildPrimitive_def split: sum.splits)
  next
    case 4
    with c Some q show ?thesis by (auto simp add: buildPrimitive_def split: sum.splits)
  next
    case 5
    with i Some q show ?thesis by (auto simp add: buildPrimitive_def split: sum.splits)
  qed
qed

lemma buildPrimitives_fails:
  "p \<in> set ps \<Longrightarrow> buildPrimitive scr g bin p = Inl e \<Longrightarrow>
   \<exists>e'. buildPrimitives scr g bin ps = Inl e'"
  by (induction ps) (auto split: sum.splits)

lemma buildMeshes_fails:
  "m \<in> set ms \<Longrightarrow> buildPrimitives scr g bin (m_primitives m) = Inl e \<Longrightarrow>
   \<exists>e'. buildMeshes scr g bin ms = Inl e'"
  by (induction ms) (auto split: sum.splits)

lemma buildSceneFromGLTF_fallback:
  assumes "meshes g = Some ms" and "ms \<noteq> []" and "nodes g = None \<or> scenes g = None"
  shows "buildSceneFromGLTF stack scr g bin =
         map_sum id (Group identity_transform) (buildMeshes scr g bin ms)"
  using assms by (auto simp add: buildSceneFromGLTF_def Let_def split: option.splits)

subsection \<open>Unsupported component types\<close>

text \<open>
  Claim C5, as the source has it. Neither \<^verbatim>\<open>buildPrimitive\<close> nor any of its callers
  catches the \<^verbatim>\<open>'Unsupported component type'\<close> error of \<^verbatim>\<open>readAccessor\<close>. For a primitive
  with a position, an unsupported component type on any attribute it resolves (position,
  normal, texture coordinate, colour or indices) makes \<^verbatim>\<open>buildPrimitive\<close> fail: the
  primitive is neither built without the attribute nor skipped. On the position and
  with the buffer views present, the failure is this very error. The failure is the
  failure of the composition: here for a document without a node hierarchy, where
  \<^verbatim>\<open>buildSceneFromGLTF\<close> runs over all meshes.
\<close>

theorem buildPrimitive_unsupported_component_type_fails:
  assumes "accessors g = Some accs" and "js_nth accs a = Some acc"
    and "COMPONENT_TYPES (a_componentType acc) = None"
    and "Some a \<in> {POSITION p, NORMAL p, TEXCOORD_0 p, COLOR_0 p, p_indices p}"
    and "POSITION p \<noteq> None"
    and "meshes g = Some ms" and "m \<in> set ms" and "p \<in> set (m_primitives m)"
    and "nodes g = None \<or> scenes g = None"
  shows "(\<exists>e. buildPrimitive scr g bin p = Inl e) \<and>
         (POSITION p = Some a \<and> bufferViews g \<noteq> None \<longrightarrow>
            buildPrimitive scr g (Some v) p =
              Inl (UnsupportedComponentType (a_componentType acc))) \<and>
         (\<exists>e. buildSceneFromGLTF stack scr g bin = Inl e)"
proof -
  from buildPrimitive_unsupported[OF assms(1-5)] obtain e where
    e: "buildPrimitive scr g bin p = Inl e" by blast
  from buildPrimitives_fails[OF assms(8) e] obtain e' where
    e': "buildPrimitives scr g bin (m_primitives m) = Inl e'" by blast
  from buildMeshes_fails[OF assms(7) e'] obtain e'' where
    e'': "buildMeshes scr g bin ms = Inl e''" by blast
  from assms(7) have "ms \<noteq> []" by auto
  from buildSceneFromGLTF_fallback[OF assms(6) this assms(9)] e''
  have s: "buildSceneFromGLTF stack scr g bin = Inl e''" by simp
  have "buildPrimitive scr g (Some v) p = Inl (UnsupportedComponentType (a_componentType acc))"
    if "POSITION p = Some a" and "bufferViews g \<noteq> None"
  proof -
    from that(2) assms(1-3)
    have "accessor_info g a = Inl (UnsupportedComponentType (a_componentType acc))"
      by (auto simp add: accessor_info_def Let_def)
    then have "readAccessor scr g v a = Inl (UnsupportedComponentType (a_componentType acc))"
      by (cases scr) (simp_all add: readAccessor_def MV_readAccessor_def AR_readAccessor_def)
    with that(1) show ?thesis by (simp add: buildPrimitive_def)
  qed
  with e s show ?thesis by blast
qed

theorem buildPrimitive_unsupported_component_type_fails_witness:
  "(\<exists>e. buildPrimitive ARViewScreen unsupported_normal_doc
          (Some (whole [0, 0, 0, 0, 0, 0, 0, 0, 0, 0, 0, 0])) (prim (Some 0) (Some 1) None) = Inl e) \<and>
   (\<exists>e. buildSceneFromGLTF 1000 ARViewScreen unsupported_normal_doc
          (Some (whole [0, 0, 0, 0, 0, 0, 0, 0, 0, 0, 0, 0])) = Inl e)"
proof -
  let ?acc = "\<lparr>a_bufferView = Some 0, a_componentType = 5124, a_type = ''VEC3'', a_count = 1,
               a_byteOffset = None\<rparr>"
  let ?p = "prim (Some 0) (Some 1) None"
  let ?m = "\<lparr>m_primitives = [?p]\<rparr>"
  have h1: "accessors unsupported_normal_doc = Some
     [\<lparr>a_bufferView = Some 0, a_componentType = 5126, a_type = ''VEC3'', a_count = 1,
       a_byteOffset = None\<rparr>, ?acc]"
    by (simp add: unsupported_normal_doc_def)
  have h2: "js_nth [\<lparr>a_bufferView = Some 0, a_componentType = 5126, a_type = ''VEC3'',
       a_count = 1, a_byteOffset = None\<rparr>, ?acc] 1 = Some ?acc"
    by (simp add: js_nth_def)
  have h3: "COMPONENT_TYPES (a_componentType ?acc) = None"
    by (simp add: COMPONENT_TYPES_def)
  have h4: "Some 1 \<in> {POSITION ?p, NORMAL ?p, TEXCOORD_0 ?p, COLOR_0 ?p, p_indices ?p}"
    by (simp add: prim_def)
  have h5: "POSITION ?p \<noteq> None" by (simp add: prim_def)
  have h6: "meshes unsupported_normal_doc = Some [?m]"
    by (simp add: unsupported_normal_doc_def)
  have h7: "?m \<in> set [?m]" by simp
  have h8: "?p \<in> set (m_primitives ?m)" by simp
  have h9: "nodes unsupported_normal_doc = None \<or> scenes unsupported_normal_doc = None"
    by (simp add: unsupported_normal_doc_def)
  from buildPrimitive_unsupported_component_type_fails[OF h1 h2 h3 h4 h5 h6 h7 h8 h9]
  show ?thesis by blast
qed

text \<open>
  Claim C5 as stated fails: with a normal of component type 5124, composition does not
  return a primitive without normals; it throws, in both files.
\<close>

theorem unsupported_normal_counterexample:
  "buildSceneFromGLTF 1000 ModelViewerScreen unsupported_normal_doc
     (Some (whole [0, 0, 0, 0, 0, 0, 0, 0, 0, 0, 0, 0])) =
     Inl (UnsupportedComponentType 5124) \<and>
   buildSceneFromGLTF 1000 ARViewScreen unsupported_normal_doc
     (Some (whole [0, 0, 0, 0, 0, 0, 0, 0, 0, 0, 0, 0])) =
     Inl (UnsupportedComponentType 5124)"
  by (simp add: buildSceneFromGLTF_def unsupported_normal_doc_def prim_def whole_def
      buildPrimitive_def optional_attribute_def readAccessor_def MV_readAccessor_def
      AR_readAccessor_def accessor_info_def js_nth_def COMPONENT_TYPES_def TYPE_SIZES_def
      new_TypedArray_def u8_slice_def bytes_of_def Let_def)

subsection \<open>Vertex colours\<close>

text \<open>
  Claim C9. For a primitive with a colour attribute whose attributes all resolve,
  \<^verbatim>\<open>buildPrimitive\<close> builds the mesh, and the colour array it stores has the length of the
  resolved colour data \<open>colors\<close>; for unsigned bytes (5121) every element is the
  quotient by 255, for unsigned shorts (5123) the quotient by 65535, and for floats (5126)
  the element itself.
\<close>

theorem buildPrimitive_color_normalized:
  assumes pos: "POSITION p = Some pa"
    and rp: "readAccessor scr g v pa = Inr positions"
    and nor: "optional_attribute scr g v (NORMAL p) = Inr normals"
    and uv: "optional_attribute scr g v (TEXCOORD_0 p) = Inr uvs"
    and col: "COLOR_0 p = Some a"
    and rc: "readAccessor scr g v a = Inr colors"
    and idx: "index_attribute scr g v (p_indices p) = Inr indices"
    and mat: "buildMaterial scr g p = Inr material"
  shows "\<exists>accs acc cs.
           accessors g = Some accs \<and> js_nth accs a = Some acc \<and>
           buildPrimitive scr g (Some v) p =
             Inr (Some (Mesh
               \<lparr>g_position = to_Float32Array positions, g_normal = normals, g_uv = uvs,
                g_color = Some (cs, TYPE_SIZES (a_type acc)), g_index = indices,
                g_computeVertexNormals = (NORMAL p = None)\<rparr>
               material)) \<and>
           length cs = length (elems colors) \<and>
           (a_componentType acc = 5121 \<longrightarrow> cs = map (\<lambda>c. F32_quot c 255) (elems colors)) \<and>
           (a_componentType acc = 5123 \<longrightarrow> cs = map (\<lambda>c. F32_quot c 65535) (elems colors)) \<and>
           (a_componentType acc = 5126 \<longrightarrow> cs = map F32_bits (elems colors))"
proof -
  from readAccessor_Inr[OF rc] obtain acc T sz n bo st where
    i: "accessor_info g a = Inr (acc, (T, sz), n, bo, st)" and k: "array_kind colors = T"
    by blast
  from accessor_info_accessor[OF i] obtain accs where
    accs: "accessors g = Some accs" "js_nth accs a = Some acc" by blast
  let ?cs = "color_array (a_componentType acc) colors"
  have c: "color_attribute scr g v (COLOR_0 p) = Inr (Some (?cs, TYPE_SIZES (a_type acc)))"
    using col rc accs by (simp add: color_attribute_def Let_def)
  have built: "buildPrimitive scr g (Some v) p =
        Inr (Some (Mesh
          \<lparr>g_position = to_Float32Array positions, g_normal = normals, g_uv = uvs,
           g_color = Some (?cs, TYPE_SIZES (a_type acc)), g_index = indices,
           g_computeVertexNormals = (NORMAL p = None)\<rparr>
          material))"
    by (simp add: buildPrimitive_def pos rp nor uv c idx mat)
  have len: "length ?cs = length (elems colors)"
    by (simp add: color_array_def to_Float32Array_def split: array_type.splits)
  have "T = Float32Array" if "a_componentType acc = 5126"
    using accessor_info_Inr(1)[OF i] that by (simp add: COMPONENT_TYPES_def)
  with k have fl: "a_componentType acc = 5126 \<longrightarrow> ?cs = map F32_bits (elems colors)"
    by (simp add: color_array_def to_Float32Array_def)
  have u8: "a_componentType acc = 5121 \<longrightarrow> ?cs = map (\<lambda>c. F32_quot c 255) (elems colors)"
    and u16: "a_componentType acc = 5123 \<longrightarrow> ?cs = map (\<lambda>c. F32_quot c 65535) (elems colors)"
    by (simp_all add: color_array_def)
  show ?thesis
    by (rule exI[of _ accs], rule exI[of _ acc], rule exI[of _ ?cs])
       (intro conjI accs built len u8 u16 fl)
qed

lemma upt_0_3: "[0..<3] = [0, 1, 2]"
  by (simp add: upt_rec)

lemma upt_0_4: "[0..<4] = [0, 1, 2, 3]"
  by (simp add: upt_rec)

lemma byte_color_doc_position:
  "readAccessor ARViewScreen byte_color_doc
     (whole [0, 0, 0, 0, 0, 0, 0, 0, 0, 0, 0, 0, 255, 0, 51, 255]) 0 =
   Inr (TypedArray Float32Array [0, 0, 0])"
  by (simp add: byte_color_doc_def whole_def readAccessor_def AR_readAccessor_def
      accessor_info_def js_nth_def COMPONENT_TYPES_def TYPE_SIZES_def new_TypedArray_def
      u8_slice_def bytes_of_def Let_def upt_0_3)

lemma byte_color_doc_color:
  "readAccessor ARViewScreen byte_color_doc
     (whole [0, 0, 0, 0, 0, 0, 0, 0, 0, 0, 0, 0, 255, 0, 51, 255]) 1 =
   Inr (TypedArray Uint8Array [255, 0, 51, 255])"
  by (simp add: byte_color_doc_def whole_def readAccessor_def AR_readAccessor_def
      accessor_info_def js_nth_def COMPONENT_TYPES_def TYPE_SIZES_def new_TypedArray_def
      u8_slice_def bytes_of_def Let_def upt_0_4)

lemma byte_color_doc_material:
  "buildMaterial ARViewScreen byte_color_doc (prim (Some 0) None (Some 1)) =
   Inr \<lparr>mp_metalness = None, mp_roughness = None, mp_side = DoubleSide,
        mp_color = Some (Color_hex 0xcccccc), mp_transparent = None, mp_opacity = None,
        mp_alphaTest = None, mp_emissive = Some (Color_hex 0x111111),
        mp_emissiveIntensity = Some (2 / 10), mp_vertexColors = None\<rparr>"
  by (simp add: buildMaterial_def AR_buildMaterial_def prim_def byte_color_doc_def Let_def)

theorem buildPrimitive_color_normalized_witness:
  "\<exists>geo mat.
     buildPrimitive ARViewScreen byte_color_doc
       (Some (whole [0, 0, 0, 0, 0, 0, 0, 0, 0, 0, 0, 0, 255, 0, 51, 255]))
       (prim (Some 0) None (Some 1)) = Inr (Some (Mesh geo mat)) \<and>
     g_position geo = [F32_bits 0, F32_bits 0, F32_bits 0] \<and>
     g_color geo =
       Some ([F32_quot 255 255, F32_quot 0 255, F32_quot 51 255, F32_quot 255 255], Some 4)"
proof -
  let ?bin = "whole [0, 0, 0, 0, 0, 0, 0, 0, 0, 0, 0, 0, 255, 0, 51, 255]"
  let ?p = "prim (Some 0) None (Some 1)"
  let ?colors = "TypedArray Uint8Array [255, 0, 51, 255]"
  have h1: "POSITION ?p = Some 0" and h5: "COLOR_0 ?p = Some 1"
    by (simp_all add: prim_def)
  have h3: "optional_attribute ARViewScreen byte_color_doc ?bin (NORMAL ?p) = Inr None"
    and h4: "optional_attribute ARViewScreen byte_color_doc ?bin (TEXCOORD_0 ?p) = Inr None"
    by (simp_all add: prim_def optional_attribute_def)
  have h7: "index_attribute ARViewScreen byte_color_doc ?bin (p_indices ?p) = Inr None"
    by (simp add: prim_def index_attribute_def)
  from buildPrimitive_color_normalized[OF h1 byte_color_doc_position h3 h4 h5
      byte_color_doc_color h7 byte_color_doc_material]
  obtain accs acc cs where
    a: "accessors byte_color_doc = Some accs" "js_nth accs 1 = Some acc"
    and b: "buildPrimitive ARViewScreen byte_color_doc (Some ?bin) ?p =
        Inr (Some (Mesh
          \<lparr>g_position = to_Float32Array (TypedArray Float32Array [0, 0, 0]), g_normal = None,
           g_uv = None, g_color = Some (cs, TYPE_SIZES (a_type acc)), g_index = None,
           g_computeVertexNormals = (NORMAL ?p = None)\<rparr>
          \<lparr>mp_metalness = None, mp_roughness = None, mp_side = DoubleSide,
           mp_color = Some (Color_hex 0xcccccc), mp_transparent = None, mp_opacity = None,
           mp_alphaTest = None, mp_emissive = Some (Color_hex 0x111111),
           mp_emissiveIntensity = Some (2 / 10), mp_vertexColors = None\<rparr>))"
    and q: "a_componentType acc = 5121 \<longrightarrow> cs = map (\<lambda>c. F32_quot c 255) (elems ?colors)"
    by blast
  from a(1) have "accs =
        [\<lparr>a_bufferView = Some 0, a_componentType = 5126, a_type = ''VEC3'', a_count = 1,
          a_byteOffset = None\<rparr>,
         \<lparr>a_bufferView = Some 0, a_componentType = 5121, a_type = ''VEC4'', a_count = 1,
          a_byteOffset = Some 12\<rparr>]"
    by (simp add: byte_color_doc_def)
  with a(2) have acc: "acc = \<lparr>a_bufferView = Some 0, a_componentType = 5121, a_type = ''VEC4'',
          a_count = 1, a_byteOffset = Some 12\<rparr>"
    by (auto simp add: js_nth_def)
  from q acc have cs: "cs = [F32_quot 255 255, F32_quot 0 255, F32_quot 51 255, F32_quot 255 255]"
    by simp
  have ts: "TYPE_SIZES (a_type acc) = Some 4"
    by (simp add: acc TYPE_SIZES_def)
  let ?geo = "\<lparr>g_position = to_Float32Array (TypedArray Float32Array [0, 0, 0]), g_normal = None,
           g_uv = None, g_color = Some (cs, TYPE_SIZES (a_type acc)), g_index = None,
           g_computeVertexNormals = (NORMAL ?p = None)\<rparr>"
  have g1: "g_position ?geo = [F32_bits 0, F32_bits 0, F32_bits 0]"
    by (simp add: to_Float32Array_def)
  have g2: "g_color ?geo =
       Some ([F32_quot 255 255, F32_quot 0 255, F32_quot 51 255, F32_quot 255 255], Some 4)"
    by (simp add: cs ts)
  from b g1 g2 show ?thesis by blast
qed

subsection \<open>Scenes without drawable primitives\<close>

lemma buildPrimitives_no_position:
  "\<forall>p\<in>set ps. POSITION p = None \<Longrightarrow> buildPrimitives scr g (Some v) ps = Inr []"
  by (induction ps) (simp_all add: buildPrimitive_def)

lemma buildMeshes_no_position:
  "\<forall>m\<in>set ms. \<forall>p\<in>set (m_primitives m). POSITION p = None \<Longrightarrow>
   buildMeshes scr g (Some v) ms = Inr []"
  by (induction ms) (simp_all add: buildPrimitives_no_position)

text \<open>
  Claim C8. Where every primitive lacks a position (here in a document without a node
  hierarchy, with a binary chunk), \<^verbatim>\<open>buildSceneFromGLTF\<close> skips every primitive and
  returns an empty group. ARViewScreen.js counts the meshes and reports the empty scene
  as the error \<^verbatim>\<open>'GLB parsing produced no renderable meshes'\<close>; ModelViewerScreen.js does
  not count them, and its \<^verbatim>\<open>loadModel\<close> ends with the empty group as a success.
\<close>

theorem loadModel_empty_scene:
  assumes "meshes g = Some ms" and "ms \<noteq> []"
    and "nodes g = None \<or> scenes g = None"
    and "\<forall>m\<in>set ms. \<forall>p\<in>set (m_primitives m). POSITION p = None"
  shows "loadModel stack ModelViewerScreen g (Some v) = Inr (Group identity_transform []) \<and>
         loadModel stack ARViewScreen g (Some v) = Inl NoRenderableMeshes"
proof -
  have "buildSceneFromGLTF stack scr g (Some v) = Inr (Group identity_transform [])" for scr
    using buildSceneFromGLTF_fallback[OF assms(1-3)] buildMeshes_no_position[OF assms(4)]
    by simp
  then show ?thesis by (simp add: loadModel_def)
qed

theorem loadModel_empty_scene_witness:
  "loadModel 1000 ModelViewerScreen no_position_doc (Some (whole [])) =
     Inr (Group identity_transform []) \<and>
   loadModel 1000 ARViewScreen no_position_doc (Some (whole [])) = Inl NoRenderableMeshes"
proof -
  let ?ms = "[\<lparr>m_primitives = [prim None None None]\<rparr>]"
  have h1: "meshes no_position_doc = Some ?ms" by (simp add: no_position_doc_def)
  have h2: "?ms \<noteq> []" by simp
  have h3: "nodes no_position_doc = None \<or> scenes no_position_doc = None"
    by (simp add: no_position_doc_def)
  have h4: "\<forall>m\<in>set ?ms. \<forall>p\<in>set (m_primitives m). POSITION p = None"
    by (simp add: prim_def)
  from loadModel_empty_scene[OF h1 h2 h3 h4] show ?thesis .
qed

subsection \<open>Cycles in the node graph\<close>











text \<open>The same failure is the result of \<^verbatim>\<open>loadModel\<close>, which shows it as the error state.\<close>

lemma loadModel_cyclic_doc: "loadModel stack scr cyclic_doc None = Inl RangeError"
proof -
  have "processNode stack scr cyclic_doc None 0 = Inl RangeError"
    by (induction stack)
       (simp_all add: cyclic_doc_def js_nth_def node_meshes_def node_children_def)
  then show ?thesis
    by (simp add: loadModel_def buildSceneFromGLTF_def cyclic_doc_def js_nth_def)
qed

section \<open>Properties of normalization\<close>

subsection \<open>Auxiliary facts\<close>



lemma vec_simps [simp]:
  "vx (a, b, c) = a" "vy (a, b, c) = b" "vz (a, b, c) = c"
  by (simp_all add: vx_def vy_def vz_def)








subsection \<open>The normalized scene\<close>






text \<open>
  Under a rotated node the box of \<^verbatim>\<open>Box3.setFromObject\<close> is larger than the box of the
  vertices, and then the lowest point of the box is at height 0 while the lowest vertex
  is above it: in \<open>tilted_segment\<close> with target size 2, after \<^verbatim>\<open>normalizeModel\<close> of
  ARViewScreen.js, both vertices are at height 1.
\<close>

lemma AR_normalizeModel_tilted_segment:
  "setFromObject (fst (AR_normalizeModel tilted_segment 2)) = Some ((- 1, 0, 0), (1, 2, 0)) \<and>
   Min (vy ` set (world_vertices (fst (AR_normalizeModel tilted_segment 2)))) = 1"
proof -
  have box: "setFromObject tilted_segment = Some ((- 1, 0, 0), (1, 2, 0))"
    by (simp add: setFromObject_def world_corners_def world_of_def tilted_segment_def
        vadd_def vmul_def Let_def)
  have "fst (AR_normalizeModel tilted_segment 2) = tilted_segment"
    unfolding AR_normalizeModel_def box
    by (simp add: Let_def getSize_def vsub_def maxDim_of_def getCenter_def vadd_def
        multiplyScalar_def box_min_def move_children_def scale_group_def tilted_segment_def)
  then show ?thesis
    by (simp add: box)
      (simp add: world_vertices_def world_of_def tilted_segment_def vadd_def vmul_def)
qed

end
